theory Spec2Isabelle
  imports Complex_Main "HOL-Library.Word"
begin

text \<open>
  A model of the weather page: the search bar with its debounced suggestion lookup, its
  suggestion buttons and its geolocation flow, and the page that fetches the weather for
  the location the search bar hands over. Each handler of the source is a function on the
  component's state; what the platform and the network answer are arguments of the
  functions.
\<close>

section \<open>JavaScript values used by the weather page\<close>

text \<open>
  A JavaScript string is a sequence of 16-bit code units; \<open>.length\<close> counts them.
  \<open>lit\<close> writes a literal whose characters are all below U+0100 (the accented letters
  of the Portuguese messages are single code units: the source files hold them precomposed).
\<close>

type_synonym code_unit = "16 word"
type_synonym jsstring = "code_unit list"

definition lit :: "string \<Rightarrow> jsstring" where
  "lit s = map of_char s"

text \<open>
  A value of type \<open>string | undefined\<close> is a \<open>jsstring option\<close>, \<open>None\<close> being
  \<open>undefined\<close>. Such a value is truthy when it is a non-empty string; \<open>a || b\<close> is
  \<open>a\<close> when \<open>a\<close> is truthy and \<open>b\<close> otherwise.
\<close>

definition truthy :: "jsstring option \<Rightarrow> bool" where
  "truthy x = (case x of None \<Rightarrow> False | Some s \<Rightarrow> s \<noteq> [])"

definition js_or :: "jsstring option \<Rightarrow> jsstring option \<Rightarrow> jsstring option" where
  "js_or a b = (if truthy a then a else b)"

text \<open>\<open>x || ''\<close>, of type \<open>string\<close>.\<close>

definition or_empty :: "jsstring option \<Rightarrow> jsstring" where
  "or_empty x = (case js_or x (Some []) of None \<Rightarrow> [] | Some s \<Rightarrow> s)"

text \<open>\<open>${x}\<close> inside a template literal: \<open>undefined\<close> prints as the word itself.\<close>

definition interp :: "jsstring option \<Rightarrow> jsstring" where
  "interp x = (case x of None \<Rightarrow> lit ''undefined'' | Some s \<Rightarrow> s)"

text \<open>The template \<open>`${city}, ${state}, Brasil`\<close> of both resolution paths.\<close>

definition location_template :: "jsstring option \<Rightarrow> jsstring option \<Rightarrow> jsstring" where
  "location_template c s = interp c @ lit '', '' @ interp s @ lit '', Brasil''"

text \<open>
  \<open>String.prototype.trim\<close> removes the white space and line terminator code units of
  ECMAScript from both ends.
\<close>

definition white_space :: "code_unit \<Rightarrow> bool" where
  "white_space u =
     (u \<in> set [0x09, 0x0A, 0x0B, 0x0C, 0x0D, 0x20, 0xA0, 0x1680, 0x2028, 0x2029,
                0x202F, 0x205F, 0x3000, 0xFEFF]
      \<or> (0x2000 \<le> u \<and> u \<le> 0x200A))"

definition trim :: "jsstring \<Rightarrow> jsstring" where
  "trim s = rev (dropWhile white_space (rev (dropWhile white_space s)))"

text \<open>
  Exceptions are values. \<open>fetch\<close> rejects with a \<open>TypeError\<close>, \<open>response.json()\<close>
  with a \<open>SyntaxError\<close>, reading a property of \<open>undefined\<close> raises a \<open>TypeError\<close>,
  \<open>encodeURIComponent\<close> raises a \<open>URIError\<close> on a lone surrogate.
\<close>

datatype js_error =
    GeolocationPositionError nat
  | Error jsstring
  | TypeError
  | SyntaxError
  | URIError

subsection \<open>encodeURIComponent\<close>

definition is_high_surrogate :: "code_unit \<Rightarrow> bool" where
  "is_high_surrogate u = (0xD800 \<le> u \<and> u \<le> 0xDBFF)"

definition is_low_surrogate :: "code_unit \<Rightarrow> bool" where
  "is_low_surrogate u = (0xDC00 \<le> u \<and> u \<le> 0xDFFF)"

text \<open>The code points of a string; \<open>None\<close> when a surrogate stands alone.\<close>

fun code_points :: "jsstring \<Rightarrow> nat list option" where
  "code_points [] = Some []"
| "code_points [u] =
     (if is_high_surrogate u \<or> is_low_surrogate u then None else Some [unat u])"
| "code_points (u # v # vs) =
     (if is_low_surrogate u then None
      else if is_high_surrogate u then
        (if is_low_surrogate v
         then map_option
                (Cons (0x10000 + (unat u - 0xD800) * 0x400 + (unat v - 0xDC00)))
                (code_points vs)
         else None)
      else map_option (Cons (unat u)) (code_points (v # vs)))"

definition utf8 :: "nat \<Rightarrow> nat list" where
  "utf8 c =
     (if c < 0x80 then [c]
      else if c < 0x800 then [0xC0 + c div 64, 0x80 + c mod 64]
      else if c < 0x10000 then
        [0xE0 + c div 4096, 0x80 + (c div 64) mod 64, 0x80 + c mod 64]
      else [0xF0 + c div 262144, 0x80 + (c div 4096) mod 64,
            0x80 + (c div 64) mod 64, 0x80 + c mod 64])"

definition hex_digit :: "nat \<Rightarrow> code_unit" where
  "hex_digit n = (if n < 10 then of_nat (48 + n) else of_nat (55 + n))"

definition percent :: "nat \<Rightarrow> jsstring" where
  "percent b = [0x25, hex_digit (b div 16), hex_digit (b mod 16)]"

definition uri_unescaped :: "nat \<Rightarrow> bool" where
  "uri_unescaped c =
     ((65 \<le> c \<and> c \<le> 90) \<or> (97 \<le> c \<and> c \<le> 122) \<or> (48 \<le> c \<and> c \<le> 57)
      \<or> c \<in> set [0x2D, 0x5F, 0x2E, 0x21, 0x7E, 0x2A, 0x27, 0x28, 0x29])"

definition encodeURIComponent :: "jsstring \<Rightarrow> js_error + jsstring" where
  "encodeURIComponent s =
     (case code_points s of
        None \<Rightarrow> Inl URIError
      | Some cs \<Rightarrow>
          Inr (concat (map (\<lambda>c. if uri_unescaped c then [of_nat c]
                                else concat (map percent (utf8 c))) cs)))"

subsection \<open>The network\<close>

text \<open>
  A request is named by its endpoint and by the parts of the URL that vary: the encoded
  query of the forward search, the coordinates of the reverse lookup, the encoded location
  of the weather timeline. What the network answers is an input of the model:
  the promise of \<open>fetch\<close> rejects, or resolves to a response with its \<open>ok\<close> flag and
  the value \<open>response.json()\<close> gives (\<open>None\<close> when the body does not parse).
\<close>

datatype request =
    NominatimSearch jsstring
  | NominatimReverse real real
  | WeatherTimeline jsstring

datatype 'a response = Response (ok: bool) (json: "'a option")

datatype 'a fetch_result = Rejected | Resolved "'a response"

section \<open>The search bar (the component \<open>SearchBar\<close>, src/unnamed/part 000)\<close>

text \<open>
  The address object of a Nominatim result. Every field may be absent. The
  \<open>Suggestion\<close> interface names \<open>city\<close>, \<open>town\<close>, \<open>state\<close> and \<open>country\<close>;
  \<open>getCurrentLocation\<close> also reads \<open>village\<close> and \<open>municipality\<close>.
\<close>

record address =
  city :: "jsstring option"
  town :: "jsstring option"
  village :: "jsstring option"
  municipality :: "jsstring option"
  state :: "jsstring option"
  country :: "jsstring option"

record suggestion =
  place_id :: int
  display_name :: jsstring
  address :: address

text \<open>
  The component's state: the five \<open>useState\<close> cells and the \<open>searchTimeout\<close> ref
  (a timer handle, or \<open>null\<close>). \<open>fetches\<close> is the trace of the requests the
  component has handed to \<open>fetch\<close>, oldest first.
\<close>

record search_bar =
  location :: jsstring
  suggestions :: "suggestion list"
  geoError :: "jsstring option"
  isGeoLoading :: bool
  showSuggestions :: bool
  searchTimeout :: "nat option"
  fetches :: "request list"

definition initial_bar :: search_bar where
  "initial_bar =
     \<lparr>location = [], suggestions = [], geoError = None, isGeoLoading = False,
      showSuggestions = False, searchTimeout = None, fetches = []\<rparr>"

text \<open>
  \<open>fetchSuggestions\<close> (lines 43 to 66). The argument \<open>net\<close> is what the network
  answers to the one request the function may issue; the continuation after each
  \<open>await\<close> runs in the same step.
\<close>

definition fetchSuggestions ::
  "suggestion list fetch_result \<Rightarrow> jsstring \<Rightarrow> search_bar \<Rightarrow> search_bar" where
  "fetchSuggestions net query st =
     (if length query < 3 then st\<lparr>suggestions := []\<rparr>
      else
        (case encodeURIComponent query of
           Inl e \<Rightarrow> st\<lparr>suggestions := []\<rparr>
         | Inr encodedQuery \<Rightarrow>
             (let st1 = st\<lparr>fetches := fetches st @ [NominatimSearch encodedQuery]\<rparr> in
              case net of
                Rejected \<Rightarrow> st1\<lparr>suggestions := []\<rparr>
              | Resolved response \<Rightarrow>
                  if \<not> ok response then st1\<lparr>suggestions := []\<rparr>
                  else
                    (case json response of
                       None \<Rightarrow> st1\<lparr>suggestions := []\<rparr>
                     | Some data \<Rightarrow>
                         st1\<lparr>suggestions :=
                               filter (\<lambda>item. truthy (js_or (city (address item))
                                                             (town (address item)))) data,
                             showSuggestions := True\<rparr>))))"

text \<open>
  \<open>handleSuggestionClick\<close> (lines 82 to 90). \<open>onSearch\<close> is the callback of the
  props; it acts on the state \<open>'p\<close> of the parent component.
\<close>

definition handleSuggestionClick ::
  "(jsstring \<Rightarrow> 'p \<Rightarrow> 'p) \<Rightarrow> suggestion \<Rightarrow> search_bar \<times> 'p \<Rightarrow> search_bar \<times> 'p" where
  "handleSuggestionClick onSearch suggestion sp =
     (let city = or_empty (js_or (city (address suggestion)) (town (address suggestion)));
          state = or_empty (state (address suggestion));
          locationString = location_template (Some city) (Some state)
      in (fst sp\<lparr>location := locationString, showSuggestions := False\<rparr>,
          onSearch locationString (snd sp)))"

text \<open>\<open>handleSubmit\<close> (lines 92 to 97).\<close>

definition handleSubmit ::
  "(jsstring \<Rightarrow> 'p \<Rightarrow> 'p) \<Rightarrow> search_bar \<times> 'p \<Rightarrow> search_bar \<times> 'p" where
  "handleSubmit onSearch sp =
     (if trim (location (fst sp)) \<noteq> [] then (fst sp, onSearch (location (fst sp)) (snd sp))
      else sp)"

text \<open>
  The suggestion buttons the component renders (lines 189 to 216): none unless the list
  is shown and non-empty, and then one for each suggestion that has a city (or town) and
  a state; the others render \<open>null\<close>. A click reaches \<open>handleSuggestionClick\<close> only
  through one of these buttons.
\<close>

definition rendered_suggestions :: "search_bar \<Rightarrow> suggestion list" where
  "rendered_suggestions st =
     (if showSuggestions st \<and> length (suggestions st) > 0
      then filter (\<lambda>suggestion.
             let city = or_empty (js_or (city (address suggestion)) (town (address suggestion)));
                 state = or_empty (state (address suggestion))
             in \<not> (city = [] \<or> state = [])) (suggestions st)
      else [])"

definition click_suggestion ::
  "(jsstring \<Rightarrow> 'p \<Rightarrow> 'p) \<Rightarrow> suggestion \<Rightarrow> search_bar \<times> 'p \<Rightarrow> (search_bar \<times> 'p) option" where
  "click_suggestion onSearch suggestion sp =
     (if suggestion \<in> set (rendered_suggestions (fst sp))
      then Some (handleSuggestionClick onSearch suggestion sp)
      else None)"

text \<open>
  The platform's timers. \<open>setTimeout\<close> hands out handles that are integers greater
  than zero and never reused; a timer holds the time it is due and the argument its
  callback \<open>() => fetchSuggestions(value)\<close> closes over. Time is counted in
  milliseconds. \<open>calls\<close> records every call of \<open>fetchSuggestions\<close> a timer made,
  with the time of the call.
\<close>

record timer =
  handle :: nat
  due :: nat
  arg :: jsstring

record world =
  bar :: search_bar
  timers :: "timer list"
  next_handle :: nat
  calls :: "(nat \<times> jsstring) list"

definition initial_world :: world where
  "initial_world = \<lparr>bar = initial_bar, timers = [], next_handle = 1, calls = []\<rparr>"

definition clearTimeout :: "nat \<Rightarrow> world \<Rightarrow> world" where
  "clearTimeout h w = w\<lparr>timers := filter (\<lambda>t. handle t \<noteq> h) (timers w)\<rparr>"

definition setTimeout :: "jsstring \<Rightarrow> nat \<Rightarrow> world \<Rightarrow> nat \<times> world" where
  "setTimeout v d w =
     (next_handle w,
      w\<lparr>timers := timers w @ [\<lparr>handle = next_handle w, due = d, arg = v\<rparr>],
        next_handle := Suc (next_handle w)\<rparr>)"

text \<open>
  \<open>handleInputChange\<close> (lines 68 to 80), for an input event at time \<open>now\<close> with
  \<open>e.target.value = v\<close>. The test \<open>if (searchTimeout.current)\<close> holds for every
  handle but 0.
\<close>

definition handleInputChange :: "nat \<Rightarrow> jsstring \<Rightarrow> world \<Rightarrow> world" where
  "handleInputChange now v w =
     (let w1 = w\<lparr>bar := (bar w)\<lparr>location := v\<rparr>\<rparr>;
          w2 = (case searchTimeout (bar w1) of
                  None \<Rightarrow> w1
                | Some h \<Rightarrow> if h \<noteq> 0 then clearTimeout h w1 else w1);
          hw = setTimeout v (now + 300) w2
      in (snd hw)\<lparr>bar := (bar (snd hw))\<lparr>searchTimeout := Some (fst hw)\<rparr>\<rparr>)"

text \<open>
  The event loop. A timer that fires leaves the table, and its callback calls
  \<open>fetchSuggestions\<close> on its argument; \<open>net\<close> gives the network's answer for each
  query. \<open>advance net t\<close> fires the timers due at \<open>t\<close> or before, earliest first.
  A key stroke at time \<open>t\<close> is handled after the timers then due; \<open>typing\<close> handles
  a sequence of key strokes, each a time and the input's new value.
\<close>

definition fire :: "(jsstring \<Rightarrow> suggestion list fetch_result) \<Rightarrow> timer \<Rightarrow> world \<Rightarrow> world" where
  "fire net t w =
     w\<lparr>bar := fetchSuggestions (net (arg t)) (arg t) (bar w),
       calls := calls w @ [(due t, arg t)]\<rparr>"

definition advance :: "(jsstring \<Rightarrow> suggestion list fetch_result) \<Rightarrow> nat \<Rightarrow> world \<Rightarrow> world" where
  "advance net t w =
     fold (fire net) (sort_key due (filter (\<lambda>x. due x \<le> t) (timers w)))
       (w\<lparr>timers := filter (\<lambda>x. \<not> due x \<le> t) (timers w)\<rparr>)"

fun typing ::
  "(jsstring \<Rightarrow> suggestion list fetch_result) \<Rightarrow> (nat \<times> jsstring) list \<Rightarrow> world \<Rightarrow> world" where
  "typing net [] w = w"
| "typing net (k # ks) w = typing net ks (handleInputChange (fst k) (snd k) (advance net (fst k) w))"

text \<open>
  A burst: key strokes in the order of their times, each less than 300 ms after the one
  before it.
\<close>

fun burst :: "(nat \<times> jsstring) list \<Rightarrow> bool" where
  "burst [] = True"
| "burst [k] = True"
| "burst (k # k' # ks) = (fst k \<le> fst k' \<and> fst k' < fst k + 300 \<and> burst (k' # ks))"

subsection \<open>Geolocation\<close>

text \<open>
  What \<open>navigator.geolocation.getCurrentPosition\<close> reports: an error with its code
  (the promise rejects with the \<open>GeolocationPositionError\<close>), or the coordinates.
  The codes of the platform are \<open>PERMISSION_DENIED = 1\<close>, \<open>POSITION_UNAVAILABLE = 2\<close>
  and \<open>TIMEOUT = 3\<close>.
\<close>

datatype position_result = PositionError nat | Position real real

definition PERMISSION_DENIED :: nat where "PERMISSION_DENIED = 1"
definition POSITION_UNAVAILABLE :: nat where "POSITION_UNAVAILABLE = 2"
definition TIMEOUT :: nat where "TIMEOUT = 3"

text \<open>The reverse lookup's JSON value; \<open>data.address\<close> may be absent.\<close>

record reverse_json =
  r_address :: "address option"

text \<open>The messages of \<open>getCurrentLocation\<close>, in the order of the source.\<close>

definition msg_unsupported :: jsstring where
  "msg_unsupported =
     lit (''Seu navegador n'' @ [CHR 0xE3] @ ''o suporta geolocaliza'' @ [CHR 0xE7, CHR 0xE3] @ ''o'')"

definition msg_lookup_failed :: jsstring where
  "msg_lookup_failed = lit (''Erro ao buscar localiza'' @ [CHR 0xE7, CHR 0xE3] @ ''o'')"

definition msg_could_not_determine :: jsstring where
  "msg_could_not_determine =
     lit (''N'' @ [CHR 0xE3] @ ''o foi poss'' @ [CHR 0xED] @ ''vel determinar sua localiza''
          @ [CHR 0xE7, CHR 0xE3] @ ''o'')"

definition msg_permission_denied :: jsstring where
  "msg_permission_denied =
     lit (''Permiss'' @ [CHR 0xE3] @ ''o de localiza'' @ [CHR 0xE7, CHR 0xE3] @ ''o negada'')"

definition msg_position_unavailable :: jsstring where
  "msg_position_unavailable =
     lit (''Informa'' @ [CHR 0xE7, CHR 0xF5] @ ''es de localiza'' @ [CHR 0xE7, CHR 0xE3]
          @ ''o indispon'' @ [CHR 0xED] @ ''veis'')"

definition msg_timeout :: jsstring where
  "msg_timeout =
     lit (''Tempo de requisi'' @ [CHR 0xE7, CHR 0xE3] @ ''o de localiza''
          @ [CHR 0xE7, CHR 0xE3] @ ''o expirou'')"

definition msg_platform_other :: jsstring where
  "msg_platform_other = lit (''Erro ao obter localiza'' @ [CHR 0xE7, CHR 0xE3] @ ''o'')"

definition msg_error_determining :: jsstring where
  "msg_error_determining =
     lit (''Erro ao determinar sua localiza'' @ [CHR 0xE7, CHR 0xE3] @ ''o'')"

text \<open>
  The \<open>try\<close> block of \<open>getCurrentLocation\<close> (lines 110 to 143): the exception that
  leaves it, if any, and the state where it stops.
\<close>

definition locate_try ::
  "(jsstring \<Rightarrow> 'p \<Rightarrow> 'p) \<Rightarrow> position_result \<Rightarrow> reverse_json fetch_result
     \<Rightarrow> search_bar \<times> 'p \<Rightarrow> js_error option \<times> search_bar \<times> 'p" where
  "locate_try onSearch position net sp =
     (case position of
        PositionError c \<Rightarrow> (Some (GeolocationPositionError c), sp)
      | Position latitude longitude \<Rightarrow>
          (let st1 = (fst sp)\<lparr>fetches := fetches (fst sp) @ [NominatimReverse latitude longitude]\<rparr>
           in case net of
                Rejected \<Rightarrow> (Some TypeError, st1, snd sp)
              | Resolved response \<Rightarrow>
                  if \<not> ok response then (Some (Error msg_lookup_failed), st1, snd sp)
                  else
                    (case json response of
                       None \<Rightarrow> (Some SyntaxError, st1, snd sp)
                     | Some data \<Rightarrow>
                         (case r_address data of
                            None \<Rightarrow> (Some TypeError, st1, snd sp)
                          | Some a \<Rightarrow>
                              (let city = js_or (js_or (js_or (city a) (town a)) (village a))
                                                (municipality a);
                                   state = state a
                               in if truthy city \<and> truthy state then
                                    (let locationString = location_template city state
                                     in (None, st1\<lparr>location := locationString\<rparr>,
                                         onSearch locationString (snd sp)))
                                  else (Some (Error msg_could_not_determine), st1, snd sp))))))"

text \<open>The \<open>catch\<close> block (lines 145 to 162).\<close>

definition locate_catch :: "js_error \<Rightarrow> search_bar \<Rightarrow> search_bar" where
  "locate_catch error st =
     (case error of
        GeolocationPositionError code \<Rightarrow>
          (if code = PERMISSION_DENIED then st\<lparr>geoError := Some msg_permission_denied\<rparr>
           else if code = POSITION_UNAVAILABLE then st\<lparr>geoError := Some msg_position_unavailable\<rparr>
           else if code = TIMEOUT then st\<lparr>geoError := Some msg_timeout\<rparr>
           else st\<lparr>geoError := Some msg_platform_other\<rparr>)
      | _ \<Rightarrow> st\<lparr>geoError := Some msg_error_determining\<rparr>)"

text \<open>
  \<open>getCurrentLocation\<close> (lines 99 to 166). \<open>supported\<close> says whether
  \<open>navigator.geolocation\<close> exists.
\<close>

definition getCurrentLocation ::
  "(jsstring \<Rightarrow> 'p \<Rightarrow> 'p) \<Rightarrow> bool \<Rightarrow> position_result \<Rightarrow> reverse_json fetch_result
     \<Rightarrow> search_bar \<times> 'p \<Rightarrow> search_bar \<times> 'p" where
  "getCurrentLocation onSearch supported position net sp =
     (let st1 = (fst sp)\<lparr>geoError := None, isGeoLoading := True\<rparr> in
      if \<not> supported then (st1\<lparr>geoError := Some msg_unsupported, isGeoLoading := False\<rparr>, snd sp)
      else
        (let r = locate_try onSearch position net (st1, snd sp);
             st2 = (case fst r of
                      None \<Rightarrow> fst (snd r)
                    | Some error \<Rightarrow> locate_catch error (fst (snd r)))
         in (st2\<lparr>isGeoLoading := False\<rparr>, snd (snd r))))"

section \<open>The page (the component \<open>Home\<close>, src/src/app/page.tsx)\<close>

text \<open>
  Numbers. A finite double is the real number it denotes, and a field the JSON value
  omits reads as \<open>undefined\<close>, here \<open>None\<close>. \<open>Math.round\<close> gives the nearest
  integer, the upper one at a tie, which is exact on doubles; \<open>undefined\<close> converts to
  \<open>NaN\<close> and stays \<open>NaN\<close>. \<open>x || 0\<close> is 0 when \<open>x\<close> is \<open>undefined\<close> or 0.
\<close>

datatype number = NaN | Num real

definition Math_round :: "real option \<Rightarrow> number" where
  "Math_round x = (case x of None \<Rightarrow> NaN | Some r \<Rightarrow> Num (of_int \<lfloor>r + 1 / 2\<rfloor>))"

definition or_zero :: "real option \<Rightarrow> real option" where
  "or_zero x = (case x of None \<Rightarrow> Some 0 | Some r \<Rightarrow> if r = 0 then Some 0 else Some r)"

text \<open>The parts of the timeline response that \<open>fetchWeatherData\<close> reads.\<close>

record hour_json =
  hr_datetime :: jsstring
  hr_temp :: "real option"
  hr_conditions :: jsstring

record conditions_json =
  cc_temp :: "real option"
  cc_windspeed :: "real option"
  cc_precipprob :: "real option"
  cc_humidity :: "real option"
  cc_conditions :: jsstring

record day_json =
  hours :: "hour_json list option"

record timeline_json =
  resolvedAddress :: jsstring
  currentConditions :: "conditions_json option"
  days :: "day_json list option"

text \<open>The interfaces \<open>HourlyForecast\<close> and \<open>WeatherData\<close>.\<close>

record hourly_forecast =
  datetime :: jsstring
  temp :: number
  conditions :: jsstring

record weather_data =
  w_location :: jsstring
  temperature :: number
  windSpeed :: number
  precipitation :: number
  humidity :: number
  w_conditions :: jsstring
  hourlyForecast :: "hourly_forecast list"

text \<open>
  The state of \<open>Home\<close>: its three \<open>useState\<close> cells, and the trace of the requests
  it has handed to \<open>fetch\<close>.
\<close>

record home =
  weather :: "weather_data option"
  loading :: bool
  error :: "jsstring option"
  requests :: "request list"

definition initial_home :: home where
  "initial_home = \<lparr>weather = None, loading = False, error = None, requests = []\<rparr>"

definition msg_not_found :: jsstring where
  "msg_not_found =
     lit (''Localiza'' @ [CHR 0xE7, CHR 0xE3] @ ''o n'' @ [CHR 0xE3] @ ''o encontrada'')"

definition msg_weather_failed :: jsstring where
  "msg_weather_failed = lit (''Erro ao buscar dados meteorol'' @ [CHR 0xF3] @ ''gicos'')"

text \<open>
  The object literal passed to \<open>setWeather\<close> (lines 43 to 55). Reading a field of an
  absent \<open>currentConditions\<close>, \<open>days\<close>, \<open>days[0]\<close> or \<open>hours\<close> raises a
  \<open>TypeError\<close>, here \<open>None\<close>.
\<close>

definition snapshot :: "timeline_json \<Rightarrow> weather_data option" where
  "snapshot data =
     (case currentConditions data of
        None \<Rightarrow> None
      | Some cc \<Rightarrow>
          (case days data of
             None \<Rightarrow> None
           | Some [] \<Rightarrow> None
           | Some (day0 # _) \<Rightarrow>
               (case hours day0 of
                  None \<Rightarrow> None
                | Some hs \<Rightarrow>
                    Some \<lparr>w_location = resolvedAddress data,
                          temperature = Math_round (cc_temp cc),
                          windSpeed = Math_round (cc_windspeed cc),
                          precipitation = Math_round (or_zero (cc_precipprob cc)),
                          humidity = Math_round (or_zero (cc_humidity cc)),
                          w_conditions = cc_conditions cc,
                          hourlyForecast =
                            map (\<lambda>hour. \<lparr>datetime = hr_datetime hour,
                                          temp = Math_round (hr_temp hour),
                                          conditions = hr_conditions hour\<rparr>) hs\<rparr>)))"

text \<open>The \<open>try\<close> block of \<open>fetchWeatherData\<close> (lines 33 to 55).\<close>

definition weather_try ::
  "timeline_json fetch_result \<Rightarrow> jsstring \<Rightarrow> home \<Rightarrow> js_error option \<times> home" where
  "weather_try net loc h =
     (case encodeURIComponent loc of
        Inl e \<Rightarrow> (Some e, h)
      | Inr encoded \<Rightarrow>
          (let h1 = h\<lparr>requests := requests h @ [WeatherTimeline encoded]\<rparr> in
           case net of
             Rejected \<Rightarrow> (Some TypeError, h1)
           | Resolved response \<Rightarrow>
               if \<not> ok response then (Some (Error msg_not_found), h1)
               else
                 (case json response of
                    None \<Rightarrow> (Some SyntaxError, h1)
                  | Some data \<Rightarrow>
                      (case snapshot data of
                         None \<Rightarrow> (Some TypeError, h1)
                       | Some w \<Rightarrow> (None, h1\<lparr>weather := Some w\<rparr>)))))"

text \<open>\<open>fetchWeatherData\<close> (lines 29 to 62), the \<open>onSearch\<close> of the search bar.\<close>

definition fetchWeatherData :: "timeline_json fetch_result \<Rightarrow> jsstring \<Rightarrow> home \<Rightarrow> home" where
  "fetchWeatherData net loc h =
     (let r = weather_try net loc (h\<lparr>loading := True, error := None\<rparr>);
          h2 = (case fst r of
                  None \<Rightarrow> snd r
                | Some e \<Rightarrow> (snd r)\<lparr>error := Some msg_weather_failed\<rparr>)
      in h2\<lparr>loading := False\<rparr>)"

section \<open>Notions of the specification\<close>

text \<open>
  The specification's fallback order for the city of a reverse lookup: \<open>city\<close>, then
  \<open>town\<close>, then \<open>village\<close>, then \<open>municipality\<close>, the first non-empty one.
\<close>

definition fallback_city :: "address \<Rightarrow> jsstring option" where
  "fallback_city a =
     (case filter (\<lambda>x. x \<noteq> None \<and> x \<noteq> Some []) [city a, town a, village a, municipality a] of
        [] \<Rightarrow> None
      | c # _ \<Rightarrow> c)"

text \<open>
  The address a geolocation attempt obtains: the platform supports geolocation, reports
  a position, and the reverse lookup answers with an OK status and a body that parses and
  holds an address. \<open>resolution\<close> is then the city and the state when both are
  there and non-empty.
\<close>

definition looked_up_address ::
  "bool \<Rightarrow> position_result \<Rightarrow> reverse_json fetch_result \<Rightarrow> address option" where
  "looked_up_address supported position net =
     (if supported then
        (case position of
           PositionError c \<Rightarrow> None
         | Position lat lon \<Rightarrow>
             (case net of
                Rejected \<Rightarrow> None
              | Resolved r \<Rightarrow>
                  if ok r then (case json r of None \<Rightarrow> None | Some data \<Rightarrow> r_address data)
                  else None))
      else None)"

definition city_and_state :: "address \<Rightarrow> (jsstring \<times> jsstring) option" where
  "city_and_state a =
     (case fallback_city a of
        None \<Rightarrow> None
      | Some c \<Rightarrow>
          (case state a of
             None \<Rightarrow> None
           | Some s \<Rightarrow> if s = [] then None else Some (c, s)))"

definition resolution ::
  "bool \<Rightarrow> position_result \<Rightarrow> reverse_json fetch_result \<Rightarrow> (jsstring \<times> jsstring) option" where
  "resolution supported position net =
     (case looked_up_address supported position net of
        None \<Rightarrow> None
      | Some a \<Rightarrow> city_and_state a)"

text \<open>
  The state the debounce leaves behind a key stroke at time \<open>t\<close> with value \<open>v\<close>:
  the ref holds a handle, and the one timer in the table is the one with that handle,
  due 300 ms after \<open>t\<close>, for \<open>v\<close>.
\<close>

definition armed :: "nat \<Rightarrow> jsstring \<Rightarrow> world \<Rightarrow> bool" where
  "armed t v w =
     (case searchTimeout (bar w) of
        None \<Rightarrow> False
      | Some h \<Rightarrow> h \<noteq> 0 \<and> next_handle w \<noteq> 0
                  \<and> timers w = [\<lparr>handle = h, due = t + 300, arg = v\<rparr>])"

section \<open>Facts about strings and messages\<close>

lemmas msg_defs = msg_unsupported_def msg_lookup_failed_def msg_could_not_determine_def
  msg_permission_denied_def msg_position_unavailable_def msg_timeout_def
  msg_platform_other_def msg_error_determining_def

lemma platform_messages_distinct:
  "distinct [msg_permission_denied, msg_position_unavailable, msg_timeout, msg_platform_other]"
  by (simp add: msg_defs lit_def)

lemma error_determining_not_platform:
  "msg_error_determining \<notin> set [msg_permission_denied, msg_position_unavailable, msg_timeout, msg_platform_other]"
  by (simp add: msg_defs lit_def)

lemma error_determining_other:
  "msg_error_determining \<noteq> msg_could_not_determine" "msg_error_determining \<noteq> msg_unsupported"
  by (simp_all add: msg_defs lit_def)

lemma truthy_Some: "truthy (Some s) = (s \<noteq> [])" by (simp add: truthy_def)
lemma truthy_alt: "truthy x = (x \<noteq> None \<and> x \<noteq> Some [])"
  by (cases x) (simp_all add: truthy_def)

lemma js_or_chain_truthy:
  "truthy (js_or (js_or (js_or (city a) (town a)) (village a)) (municipality a))
     = (fallback_city a \<noteq> None)"
  by (auto simp: js_or_def fallback_city_def truthy_alt)

lemma js_or_chain_fallback:
  "fallback_city a = Some c \<Longrightarrow>
     js_or (js_or (js_or (city a) (town a)) (village a)) (municipality a) = Some c \<and> c \<noteq> []"
  by (auto simp: js_or_def fallback_city_def truthy_alt split: if_splits)

lemma or_empty_nonempty: "(or_empty x \<noteq> []) = truthy x"
  by (cases x) (auto simp: or_empty_def js_or_def truthy_def)

lemma js_or_truthy: "truthy (js_or a b) = (truthy a \<or> truthy b)"
  by (simp add: js_or_def)

lemma or_empty_Some: "or_empty (Some s) = s"
  by (simp add: or_empty_def js_or_def truthy_def)

lemma fallback_city_town:
  "\<not> truthy (city a) \<Longrightarrow> town a = Some t \<Longrightarrow> t \<noteq> [] \<Longrightarrow> fallback_city a = Some t"
  by (auto simp: fallback_city_def truthy_alt)

lemma fallback_city_None:
  "(fallback_city a = None) =
     (\<not> truthy (city a) \<and> \<not> truthy (town a) \<and> \<not> truthy (village a) \<and> \<not> truthy (municipality a))"
  by (auto simp: fallback_city_def truthy_alt)

section \<open>Selecting a suggestion\<close>

lemma handleSuggestionClick_emits:
  "snd (handleSuggestionClick onSearch s sp) =
     onSearch (or_empty (js_or (city (address s)) (town (address s))) @ lit '', ''
               @ or_empty (state (address s)) @ lit '', Brasil'') (snd sp)"
  by (simp add: handleSuggestionClick_def Let_def location_template_def interp_def)

lemma handleSuggestionClick_bar:
  "fst (handleSuggestionClick onSearch s sp) =
     (fst sp)\<lparr>location := or_empty (js_or (city (address s)) (town (address s))) @ lit '', ''
               @ or_empty (state (address s)) @ lit '', Brasil'', showSuggestions := False\<rparr>"
  by (simp add: handleSuggestionClick_def Let_def location_template_def interp_def)

lemma enc_curitiba: "encodeURIComponent (lit (''Curitiba, Paran'' @ [CHR 0xE1] @ '', Brasil'')) = Inr (lit ''Curitiba%2C%20Paran%C3%A1%2C%20Brasil'')"
  by code_simp

lemma fetchWeatherData_requests:
  "encodeURIComponent loc = Inr e \<Longrightarrow>
     requests (fetchWeatherData net loc h) = requests h @ [WeatherTimeline e]"
  by (simp add: fetchWeatherData_def weather_try_def Let_def
        split: fetch_result.split option.split)

lemma click_suggestion_Some:
  "click_suggestion onSearch s sp = Some r \<Longrightarrow>
     (truthy (city (address s)) \<or> truthy (town (address s))) \<and> truthy (state (address s))
     \<and> r = handleSuggestionClick onSearch s sp"
  by (auto simp: click_suggestion_def rendered_suggestions_def Let_def or_empty_nonempty
        js_or_truthy split: if_splits)

lemma click_suggestion_None:
  "\<not> ((truthy (city (address s)) \<or> truthy (town (address s))) \<and> truthy (state (address s)))
     \<Longrightarrow> click_suggestion onSearch s sp = None"
  using click_suggestion_Some [of onSearch s sp] by (cases "click_suggestion onSearch s sp") auto

section \<open>The geolocation flow\<close>

lemma getCurrentLocation_busy:
  "isGeoLoading (fst (getCurrentLocation onSearch supported position net sp)) = False"
  by (simp add: getCurrentLocation_def Let_def)

lemma locate_try_position_error:
  "locate_try onSearch (PositionError c) net sp = (Some (GeolocationPositionError c), sp)"
  by (simp add: locate_try_def)

lemma getCurrentLocation_position_error:
  "getCurrentLocation onSearch True (PositionError c) net sp =
     ((fst sp)\<lparr>geoError := Some (if c = PERMISSION_DENIED then msg_permission_denied
                                else if c = POSITION_UNAVAILABLE then msg_position_unavailable
                                else if c = TIMEOUT then msg_timeout
                                else msg_platform_other),
               isGeoLoading := False\<rparr>, snd sp)"
  by (simp add: getCurrentLocation_def locate_try_position_error locate_catch_def Let_def)

lemma locate_try_address:
  "ok r \<Longrightarrow> json r = Some data \<Longrightarrow> r_address data = Some a \<Longrightarrow>
   locate_try onSearch (Position lat lon) (Resolved r) sp =
     (let c = js_or (js_or (js_or (city a) (town a)) (village a)) (municipality a);
          st1 = (fst sp)\<lparr>fetches := fetches (fst sp) @ [NominatimReverse lat lon]\<rparr>
      in if truthy c \<and> truthy (state a)
         then (None, st1\<lparr>location := location_template c (state a)\<rparr>,
               onSearch (location_template c (state a)) (snd sp))
         else (Some (Error msg_could_not_determine), st1, snd sp))"
  by (simp add: locate_try_def Let_def)

lemma getCurrentLocation_resolved:
  assumes "ok r" and "json r = Some data" and "r_address data = Some a"
    and "fallback_city a = Some c" and "state a = Some s" and "s \<noteq> []"
  shows "getCurrentLocation onSearch True (Position lat lon) (Resolved r) sp =
         ((fst sp)\<lparr>geoError := None, isGeoLoading := False,
                   fetches := fetches (fst sp) @ [NominatimReverse lat lon],
                   location := c @ lit '', '' @ s @ lit '', Brasil''\<rparr>,
          onSearch (c @ lit '', '' @ s @ lit '', Brasil'') (snd sp))"
  using js_or_chain_fallback [OF assms(4)] assms(5,6)
  by (simp add: getCurrentLocation_def locate_try_address [OF assms(1,2,3)] Let_def truthy_Some
        location_template_def interp_def)

lemma getCurrentLocation_unresolved:
  assumes "ok r" and "json r = Some data" and "r_address data = Some a"
    and "fallback_city a = None \<or> \<not> truthy (state a)"
  shows "getCurrentLocation onSearch True (Position lat lon) (Resolved r) sp =
         ((fst sp)\<lparr>geoError := Some msg_error_determining, isGeoLoading := False,
                   fetches := fetches (fst sp) @ [NominatimReverse lat lon]\<rparr>, snd sp)"
  using assms(4) js_or_chain_truthy [of a]
  by (auto simp: getCurrentLocation_def locate_try_address [OF assms(1,2,3)] Let_def
        locate_catch_def)

lemma getCurrentLocation_no_answer:
  assumes "looked_up_address True (Position lat lon) net = None"
  shows "getCurrentLocation onSearch True (Position lat lon) net sp =
         ((fst sp)\<lparr>geoError := Some msg_error_determining, isGeoLoading := False,
                   fetches := fetches (fst sp) @ [NominatimReverse lat lon]\<rparr>, snd sp)"
  using assms
  by (auto simp: looked_up_address_def getCurrentLocation_def locate_try_def Let_def
        locate_catch_def split: fetch_result.splits option.splits if_splits)

lemma getCurrentLocation_unsupported:
  "getCurrentLocation onSearch False position net sp =
     ((fst sp)\<lparr>geoError := Some msg_unsupported, isGeoLoading := False\<rparr>, snd sp)"
  by (simp add: getCurrentLocation_def Let_def)

lemma looked_up_address_Some:
  "looked_up_address supported position net = Some a \<Longrightarrow>
     \<exists>lat lon r data. supported \<and> position = Position lat lon \<and> net = Resolved r \<and> ok r
        \<and> json r = Some data \<and> r_address data = Some a"
  by (auto simp: looked_up_address_def
        split: if_splits position_result.splits fetch_result.splits option.splits)

lemma looked_up_address_None:
  "looked_up_address supported position net = None \<Longrightarrow>
     snd (getCurrentLocation onSearch supported position net sp) = snd sp
     \<and> geoError (fst (getCurrentLocation onSearch supported position net sp)) \<noteq> None"
  by (auto simp: looked_up_address_def getCurrentLocation_def locate_try_def Let_def
        locate_catch_def
        split: if_splits position_result.splits fetch_result.splits option.splits)

lemma getCurrentLocation_emits:
  "snd (getCurrentLocation onSearch supported position net sp) =
     (case resolution supported position net of
        None \<Rightarrow> snd sp
      | Some cs \<Rightarrow> onSearch (fst cs @ lit '', '' @ snd cs @ lit '', Brasil'') (snd sp))
   \<and> (geoError (fst (getCurrentLocation onSearch supported position net sp)) = None)
       = (resolution supported position net \<noteq> None)"
proof (cases "looked_up_address supported position net")
  case None
  with looked_up_address_None [OF None, of onSearch sp] show ?thesis
    by (simp add: resolution_def)
next
  case (Some a)
  from looked_up_address_Some [OF Some] obtain lat lon r data where
    in_: "supported" "position = Position lat lon" "net = Resolved r"
    and r: "ok r" "json r = Some data" "r_address data = Some a"
    by blast
  show ?thesis
  proof (cases "city_and_state a")
    case None
    then have "fallback_city a = None \<or> \<not> truthy (state a)"
      by (auto simp: city_and_state_def truthy_def split: option.splits if_splits)
    from getCurrentLocation_unresolved [OF r this, of onSearch lat lon sp] None Some in_
    show ?thesis by (simp add: resolution_def)
  next
    case (Some cs)
    then have "fallback_city a = Some (fst cs)" "state a = Some (snd cs)" "snd cs \<noteq> []"
      by (auto simp: city_and_state_def split: option.splits if_splits)
    from getCurrentLocation_resolved [OF r this, of onSearch lat lon sp] Some
      \<open>looked_up_address supported position net = Some a\<close> in_
    show ?thesis by (simp add: resolution_def)
  qed
qed

section \<open>Claims about the search bar\<close>

text \<open>
  C8. Selecting a suggestion whose address has the city "Curitiba" and the state
  "Parana" (its last letter with an acute accent, U+00E1) produces exactly the string
  "Curitiba, Parana, Brasil" (same letter): the input text becomes
  that string, the suggestion list is closed, \<open>onSearch\<close> is called with that string, and
  when \<open>onSearch\<close> is the page's \<open>fetchWeatherData\<close> the weather request issued is the
  one for that string.
\<close>

theorem select_curitiba:
  assumes "city (address s) = Some (lit ''Curitiba'')"
    and "state (address s) = Some (lit (''Paran'' @ [CHR 0xE1]))"
  shows "location (fst (handleSuggestionClick onSearch s (st, p))) = lit (''Curitiba, Paran'' @ [CHR 0xE1] @ '', Brasil'')
    \<and> showSuggestions (fst (handleSuggestionClick onSearch s (st, p))) = False
    \<and> snd (handleSuggestionClick onSearch s (st, p)) = onSearch (lit (''Curitiba, Paran'' @ [CHR 0xE1] @ '', Brasil'')) p
    \<and> requests (snd (handleSuggestionClick (fetchWeatherData net) s (st, h))) =
         requests h @ [WeatherTimeline (lit ''Curitiba%2C%20Paran%C3%A1%2C%20Brasil'')]"
proof -
  have c: "or_empty (js_or (city (address s)) (town (address s))) = lit ''Curitiba''"
    using assms(1) by (simp add: or_empty_def js_or_def truthy_def lit_def)
  have t: "or_empty (state (address s)) = lit (''Paran'' @ [CHR 0xE1])"
    using assms(2) by (simp add: or_empty_Some)
  have str: "lit ''Curitiba'' @ lit '', '' @ lit (''Paran'' @ [CHR 0xE1]) @ lit '', Brasil''
              = lit (''Curitiba, Paran'' @ [CHR 0xE1] @ '', Brasil'')"
    by (simp add: lit_def)
  have req: "requests (fetchWeatherData net (lit (''Curitiba, Paran'' @ [CHR 0xE1] @ '', Brasil'')) h)
     = requests h @ [WeatherTimeline (lit ''Curitiba%2C%20Paran%C3%A1%2C%20Brasil'')]"
    by (rule fetchWeatherData_requests [OF enc_curitiba])
  show ?thesis
    using req by (simp only: handleSuggestionClick_emits handleSuggestionClick_bar c t str fst_conv snd_conv) simp
qed

theorem select_curitiba_witness:
  "location (fst (handleSuggestionClick (fetchWeatherData Rejected)
      \<lparr>place_id = 1, display_name = lit ''Curitiba'',
       address = \<lparr>city = Some (lit ''Curitiba''), town = None, village = None,
                  municipality = None, state = Some (lit (''Paran'' @ [CHR 0xE1])),
                  country = Some (lit ''Brasil'')\<rparr>\<rparr>
      (initial_bar, initial_home)))
     = lit (''Curitiba, Paran'' @ [CHR 0xE1] @ '', Brasil'')
   \<and> requests (snd (handleSuggestionClick (fetchWeatherData Rejected)
      \<lparr>place_id = 1, display_name = lit ''Curitiba'',
       address = \<lparr>city = Some (lit ''Curitiba''), town = None, village = None,
                  municipality = None, state = Some (lit (''Paran'' @ [CHR 0xE1])),
                  country = Some (lit ''Brasil'')\<rparr>\<rparr>
      (initial_bar, initial_home)))
     = requests initial_home @ [WeatherTimeline (lit ''Curitiba%2C%20Paran%C3%A1%2C%20Brasil'')]"
proof -
  have c: "city (address
      \<lparr>place_id = 1, display_name = lit ''Curitiba'',
       address = \<lparr>city = Some (lit ''Curitiba''), town = None, village = None,
                  municipality = None, state = Some (lit (''Paran'' @ [CHR 0xE1])),
                  country = Some (lit ''Brasil'')\<rparr>\<rparr>) = Some (lit ''Curitiba'')"
    by simp
  have t: "state (address
      \<lparr>place_id = 1, display_name = lit ''Curitiba'',
       address = \<lparr>city = Some (lit ''Curitiba''), town = None, village = None,
                  municipality = None, state = Some (lit (''Paran'' @ [CHR 0xE1])),
                  country = Some (lit ''Brasil'')\<rparr>\<rparr>) = Some (lit (''Paran'' @ [CHR 0xE1]))"
    by simp
  from select_curitiba
    [OF c t, of "fetchWeatherData Rejected" initial_bar initial_home Rejected initial_home]
  show ?thesis by blast
qed

text \<open>
  C2. The resolved location string reaches \<open>onSearch\<close> only when a city (or city-like
  field) and a state are both there and non-empty. A suggestion can be clicked only
  through a rendered button, and a button is rendered only for a suggestion with a
  non-empty city or town and a non-empty state; the click then calls \<open>onSearch\<close> with
  the string built from them, and a suggestion lacking either cannot be clicked. A
  geolocation attempt calls \<open>onSearch\<close> exactly when the lookup yields an address with a
  city-like field and a state, with the string built from them; otherwise \<open>onSearch\<close> is
  not called, and the attempt ends with an error message exactly in that case.
\<close>

theorem location_emitted_only_when_resolved:
  "(click_suggestion onSearch s sp = Some r \<longrightarrow>
      (truthy (city (address s)) \<or> truthy (town (address s))) \<and> truthy (state (address s))
      \<and> snd r = onSearch (or_empty (js_or (city (address s)) (town (address s))) @ lit '', ''
                          @ or_empty (state (address s)) @ lit '', Brasil'') (snd sp))
   \<and> (\<not> ((truthy (city (address s)) \<or> truthy (town (address s))) \<and> truthy (state (address s)))
      \<longrightarrow> click_suggestion onSearch s sp = None)
   \<and> snd (getCurrentLocation onSearch supported position net sp) =
       (case resolution supported position net of
          None \<Rightarrow> snd sp
        | Some cs \<Rightarrow> onSearch (fst cs @ lit '', '' @ snd cs @ lit '', Brasil'') (snd sp))
   \<and> (geoError (fst (getCurrentLocation onSearch supported position net sp)) = None)
       = (resolution supported position net \<noteq> None)"
proof (intro conjI impI)
  assume a: "click_suggestion onSearch s sp = Some r"
  from click_suggestion_Some [OF a]
  show "truthy (city (address s)) \<or> truthy (town (address s))"
    and "truthy (state (address s))"
    and "snd r = onSearch (or_empty (js_or (city (address s)) (town (address s))) @ lit '', ''
                          @ or_empty (state (address s)) @ lit '', Brasil'') (snd sp)"
    by (simp_all add: handleSuggestionClick_emits)
next
  assume "\<not> ((truthy (city (address s)) \<or> truthy (town (address s))) \<and> truthy (state (address s)))"
  then show "click_suggestion onSearch s sp = None" by (rule click_suggestion_None)
next
  show "snd (getCurrentLocation onSearch supported position net sp) =
       (case resolution supported position net of
          None \<Rightarrow> snd sp
        | Some cs \<Rightarrow> onSearch (fst cs @ lit '', '' @ snd cs @ lit '', Brasil'') (snd sp))"
    using getCurrentLocation_emits [of onSearch supported position net sp] by (rule conjunct1)
next
  show "(geoError (fst (getCurrentLocation onSearch supported position net sp)) = None)
       = (resolution supported position net \<noteq> None)"
    using getCurrentLocation_emits [of onSearch supported position net sp] by (rule conjunct2)
qed

theorem location_emitted_only_when_resolved_witness:
  "click_suggestion (fetchWeatherData Rejected)
     \<lparr>place_id = 1, display_name = lit ''Curitiba'',
      address = \<lparr>city = Some (lit ''Curitiba''), town = None, village = None,
                 municipality = None, state = Some (lit ''PR''), country = None\<rparr>\<rparr>
     (initial_bar\<lparr>suggestions :=
        [\<lparr>place_id = 1, display_name = lit ''Curitiba'',
          address = \<lparr>city = Some (lit ''Curitiba''), town = None, village = None,
                     municipality = None, state = Some (lit ''PR''), country = None\<rparr>\<rparr>],
        showSuggestions := True\<rparr>, initial_home)
   = Some (initial_bar\<lparr>suggestions :=
        [\<lparr>place_id = 1, display_name = lit ''Curitiba'',
          address = \<lparr>city = Some (lit ''Curitiba''), town = None, village = None,
                     municipality = None, state = Some (lit ''PR''), country = None\<rparr>\<rparr>],
        location := lit ''Curitiba, PR, Brasil''\<rparr>,
        fetchWeatherData Rejected (lit ''Curitiba, PR, Brasil'') initial_home)
   \<and> click_suggestion (fetchWeatherData Rejected)
     \<lparr>place_id = 2, display_name = lit ''Curitiba'',
      address = \<lparr>city = Some (lit ''Curitiba''), town = None, village = None,
                 municipality = None, state = None, country = None\<rparr>\<rparr>
     (initial_bar\<lparr>suggestions :=
        [\<lparr>place_id = 2, display_name = lit ''Curitiba'',
          address = \<lparr>city = Some (lit ''Curitiba''), town = None, village = None,
                     municipality = None, state = None, country = None\<rparr>\<rparr>],
        showSuggestions := True\<rparr>, initial_home) = None
   \<and> snd (getCurrentLocation (fetchWeatherData Rejected) True (Position 0 0)
          (Resolved (Response True (Some \<lparr>r_address = Some
             \<lparr>city = Some (lit ''Curitiba''), town = None, village = None,
              municipality = None, state = None, country = None\<rparr>\<rparr>)))
          (initial_bar, initial_home)) = initial_home"
  using location_emitted_only_when_resolved
     [of "fetchWeatherData Rejected"
         "\<lparr>place_id = 1, display_name = lit ''Curitiba'',
      address = \<lparr>city = Some (lit ''Curitiba''), town = None, village = None,
                 municipality = None, state = Some (lit ''PR''), country = None\<rparr>\<rparr>"
         "(initial_bar\<lparr>suggestions :=
        [\<lparr>place_id = 1, display_name = lit ''Curitiba'',
          address = \<lparr>city = Some (lit ''Curitiba''), town = None, village = None,
                     municipality = None, state = Some (lit ''PR''), country = None\<rparr>\<rparr>],
        showSuggestions := True\<rparr>, initial_home)"
         "handleSuggestionClick (fetchWeatherData Rejected) \<lparr>place_id = 1, display_name = lit ''Curitiba'',
      address = \<lparr>city = Some (lit ''Curitiba''), town = None, village = None,
                 municipality = None, state = Some (lit ''PR''), country = None\<rparr>\<rparr>
            (initial_bar\<lparr>suggestions :=
        [\<lparr>place_id = 1, display_name = lit ''Curitiba'',
          address = \<lparr>city = Some (lit ''Curitiba''), town = None, village = None,
                     municipality = None, state = Some (lit ''PR''), country = None\<rparr>\<rparr>],
        showSuggestions := True\<rparr>, initial_home)"
         True "Position 0 0"
         "Resolved (Response True (Some \<lparr>r_address = Some
             \<lparr>city = Some (lit ''Curitiba''), town = None, village = None,
              municipality = None, state = None, country = None\<rparr>\<rparr>))"]
    location_emitted_only_when_resolved
     [of "fetchWeatherData Rejected"
         "\<lparr>place_id = 2, display_name = lit ''Curitiba'',
      address = \<lparr>city = Some (lit ''Curitiba''), town = None, village = None,
                 municipality = None, state = None, country = None\<rparr>\<rparr>"
         "(initial_bar\<lparr>suggestions :=
        [\<lparr>place_id = 2, display_name = lit ''Curitiba'',
          address = \<lparr>city = Some (lit ''Curitiba''), town = None, village = None,
                     municipality = None, state = None, country = None\<rparr>\<rparr>],
        showSuggestions := True\<rparr>, initial_home)"]
  by (simp add: click_suggestion_def rendered_suggestions_def handleSuggestionClick_def Let_def
        initial_bar_def or_empty_def js_or_def truthy_def lit_def location_template_def interp_def
        resolution_def looked_up_address_def city_and_state_def fallback_city_def
        getCurrentLocation_def locate_try_def locate_catch_def)

text \<open>
  C6. A failure of the platform's geolocation is reported with one of exactly four
  messages, chosen by the error's code: permission denied, position unavailable, timeout,
  and one message for every other code. The four differ from each other, the code
  \<open>PERMISSION_DENIED\<close> gives the message of the denied permission, and
  \<open>isGeoLoading\<close> is false when \<open>getCurrentLocation\<close> ends, whatever the platform
  and the network answered.
\<close>

theorem platform_failure_messages:
  "geoError (fst (getCurrentLocation onSearch True (PositionError c) net sp)) =
     Some (if c = PERMISSION_DENIED then msg_permission_denied
           else if c = POSITION_UNAVAILABLE then msg_position_unavailable
           else if c = TIMEOUT then msg_timeout
           else msg_platform_other)
   \<and> geoError (fst (getCurrentLocation onSearch True (PositionError c) net sp))
       \<in> set (map Some [msg_permission_denied, msg_position_unavailable, msg_timeout,
                         msg_platform_other])
   \<and> distinct [msg_permission_denied, msg_position_unavailable, msg_timeout, msg_platform_other]
   \<and> geoError (fst (getCurrentLocation onSearch True (PositionError PERMISSION_DENIED) net sp)) =
       Some msg_permission_denied
   \<and> isGeoLoading (fst (getCurrentLocation onSearch supported position net' sp)) = False"
  by (simp only: getCurrentLocation_position_error getCurrentLocation_busy
        platform_messages_distinct) simp

theorem platform_failure_messages_witness:
  "geoError (fst (getCurrentLocation (fetchWeatherData Rejected) True (PositionError 1) Rejected
      (initial_bar, initial_home))) = Some msg_permission_denied
   \<and> geoError (fst (getCurrentLocation (fetchWeatherData Rejected) True (PositionError 7) Rejected
      (initial_bar, initial_home))) = Some msg_platform_other
   \<and> isGeoLoading (fst (getCurrentLocation (fetchWeatherData Rejected) True (PositionError 1)
      Rejected (initial_bar, initial_home))) = False"
  using platform_failure_messages
      [of "fetchWeatherData Rejected" 1 Rejected "(initial_bar, initial_home)" True
          "PositionError 1" Rejected]
    platform_failure_messages
      [of "fetchWeatherData Rejected" 7 Rejected "(initial_bar, initial_home)" True
          "PositionError 7" Rejected]
  by (simp add: PERMISSION_DENIED_def POSITION_UNAVAILABLE_def TIMEOUT_def)

text \<open>
  C7. In the geolocation flow the city of the reverse lookup's address is the first
  non-empty one of \<open>city\<close>, \<open>town\<close>, \<open>village\<close> and \<open>municipality\<close>, and the
  state is read directly: when that city is \<open>c\<close> and the state is a non-empty \<open>s\<close>,
  the input text becomes "c, s, Brasil", \<open>onSearch\<close> is called with it and no error is
  set. In particular an address with a town but no city resolves to the town.
\<close>

theorem reverse_geocode_city_fallback:
  assumes "ok r" and "json r = Some data" and "r_address data = Some a"
  shows "(fallback_city a = Some c \<and> state a = Some s \<and> s \<noteq> [] \<longrightarrow>
            location (fst (getCurrentLocation onSearch True (Position lat lon) (Resolved r) sp))
              = c @ lit '', '' @ s @ lit '', Brasil''
          \<and> snd (getCurrentLocation onSearch True (Position lat lon) (Resolved r) sp)
              = onSearch (c @ lit '', '' @ s @ lit '', Brasil'') (snd sp)
          \<and> geoError (fst (getCurrentLocation onSearch True (Position lat lon) (Resolved r) sp))
              = None)
       \<and> (\<not> truthy (city a) \<and> town a = Some t \<and> t \<noteq> [] \<longrightarrow> fallback_city a = Some t)"
proof (intro conjI impI)
  assume h: "fallback_city a = Some c \<and> state a = Some s \<and> s \<noteq> []"
  then have h': "fallback_city a = Some c" "state a = Some s" "s \<noteq> []" by simp_all
  note R = getCurrentLocation_resolved [OF assms h', of onSearch lat lon sp]
  show "location (fst (getCurrentLocation onSearch True (Position lat lon) (Resolved r) sp))
              = c @ lit '', '' @ s @ lit '', Brasil''"
    by (simp add: R)
  show "snd (getCurrentLocation onSearch True (Position lat lon) (Resolved r) sp)
              = onSearch (c @ lit '', '' @ s @ lit '', Brasil'') (snd sp)"
    by (simp add: R)
  show "geoError (fst (getCurrentLocation onSearch True (Position lat lon) (Resolved r) sp)) = None"
    by (simp add: R)
next
  assume "\<not> truthy (city a) \<and> town a = Some t \<and> t \<noteq> []"
  then show "fallback_city a = Some t" by (simp add: fallback_city_town)
qed

theorem reverse_geocode_city_fallback_witness:
  "location (fst (getCurrentLocation (fetchWeatherData Rejected) True (Position 0 0)
      (Resolved (Response True (Some \<lparr>r_address = Some
         \<lparr>city = None, town = Some (lit ''Paraty''), village = None, municipality = None,
          state = Some (lit ''Rio de Janeiro''), country = None\<rparr>\<rparr>)))
      (initial_bar, initial_home))) = lit ''Paraty, Rio de Janeiro, Brasil''
   \<and> fallback_city
         \<lparr>city = None, town = Some (lit ''Paraty''), village = None, municipality = None,
          state = Some (lit ''Rio de Janeiro''), country = None\<rparr> = Some (lit ''Paraty'')"
  using reverse_geocode_city_fallback
    [of "Response True (Some \<lparr>r_address = Some
           \<lparr>city = None, town = Some (lit ''Paraty''), village = None, municipality = None,
            state = Some (lit ''Rio de Janeiro''), country = None\<rparr>\<rparr>)"
        "\<lparr>r_address = Some
           \<lparr>city = None, town = Some (lit ''Paraty''), village = None, municipality = None,
            state = Some (lit ''Rio de Janeiro''), country = None\<rparr>\<rparr>"
        "\<lparr>city = None, town = Some (lit ''Paraty''), village = None, municipality = None,
          state = Some (lit ''Rio de Janeiro''), country = None\<rparr>"
        "lit ''Paraty''" "lit ''Rio de Janeiro''" "fetchWeatherData Rejected" 0 0
        "(initial_bar, initial_home)" "lit ''Paraty''"]
  by (simp add: truthy_def lit_def)

text \<open>
  C4, as the code has it. When the reverse lookup succeeds but its address lacks the
  state, or lacks every city-like field, the flow ends with the message \<open>msg_error_determining\<close>
  ("Erro ao determinar sua localizacao", with its accents), and \<open>onSearch\<close> is not called. That message differs
  from each of the four messages of a platform failure, but it is the very message of a
  failed request or an unreadable body: the text \<open>msg_could_not_determine\<close> ("Nao foi possivel determinar sua
  localizacao", with its accents) of the exception raised for the missing field is never
  shown.
\<close>

theorem missing_fields_message:
  assumes "ok r" and "json r = Some data" and "r_address data = Some a"
    and "\<not> truthy (state a) \<or> (\<not> truthy (city a) \<and> \<not> truthy (town a)
           \<and> \<not> truthy (village a) \<and> \<not> truthy (municipality a))"
  shows "geoError (fst (getCurrentLocation onSearch True (Position lat lon) (Resolved r) sp))
           = Some msg_error_determining
       \<and> snd (getCurrentLocation onSearch True (Position lat lon) (Resolved r) sp) = snd sp
       \<and> msg_error_determining \<notin> set [msg_permission_denied, msg_position_unavailable,
                                        msg_timeout, msg_platform_other]
       \<and> msg_error_determining \<noteq> msg_could_not_determine
       \<and> (looked_up_address True (Position lat lon) net = None \<longrightarrow>
            geoError (fst (getCurrentLocation onSearch True (Position lat lon) net sp))
              = Some msg_error_determining)"
proof -
  from assms(4) have "fallback_city a = None \<or> \<not> truthy (state a)"
    by (auto simp: fallback_city_None)
  note U = getCurrentLocation_unresolved [OF assms(1,2,3) this, of onSearch lat lon sp]
  have 1: "geoError (fst (getCurrentLocation onSearch True (Position lat lon) (Resolved r) sp))
           = Some msg_error_determining"
    by (simp add: U)
  have 2: "snd (getCurrentLocation onSearch True (Position lat lon) (Resolved r) sp) = snd sp"
    by (simp add: U)
  have 3: "looked_up_address True (Position lat lon) net = None \<longrightarrow>
            geoError (fst (getCurrentLocation onSearch True (Position lat lon) net sp))
              = Some msg_error_determining"
    by (simp add: getCurrentLocation_no_answer)
  from 1 2 3 error_determining_not_platform error_determining_other(1) show ?thesis by blast
qed

theorem missing_fields_message_witness:
  "geoError (fst (getCurrentLocation (fetchWeatherData Rejected) True (Position 0 0)
      (Resolved (Response True (Some \<lparr>r_address = Some
         \<lparr>city = Some (lit ''Curitiba''), town = None, village = None, municipality = None,
          state = None, country = None\<rparr>\<rparr>)))
      (initial_bar, initial_home))) = Some msg_error_determining
   \<and> geoError (fst (getCurrentLocation (fetchWeatherData Rejected) True (Position 0 0)
      Rejected (initial_bar, initial_home))) = Some msg_error_determining"
  using missing_fields_message [of "Response True (Some \<lparr>r_address = Some
         \<lparr>city = Some (lit ''Curitiba''), town = None, village = None, municipality = None,
          state = None, country = None\<rparr>\<rparr>)" "\<lparr>r_address = Some
         \<lparr>city = Some (lit ''Curitiba''), town = None, village = None, municipality = None,
          state = None, country = None\<rparr>\<rparr>" "\<lparr>city = Some (lit ''Curitiba''), town = None, village = None, municipality = None,
          state = None, country = None\<rparr>" "fetchWeatherData Rejected" 0 0 "(initial_bar, initial_home)" Rejected]
  by (simp add: truthy_def looked_up_address_def)

text \<open>
  C4 as stated fails: for an address with a city and no state the message shown is not
  the one of the raised exception, and it is the same as after a rejected request.
\<close>

theorem missing_state_message_counterexample:
  "geoError (fst (getCurrentLocation (fetchWeatherData Rejected) True (Position 0 0)
      (Resolved (Response True (Some \<lparr>r_address = Some
         \<lparr>city = Some (lit ''Curitiba''), town = None, village = None, municipality = None,
          state = None, country = None\<rparr>\<rparr>)))
      (initial_bar, initial_home))) \<noteq> Some msg_could_not_determine
   \<and> geoError (fst (getCurrentLocation (fetchWeatherData Rejected) True (Position 0 0)
      (Resolved (Response True (Some \<lparr>r_address = Some
         \<lparr>city = Some (lit ''Curitiba''), town = None, village = None, municipality = None,
          state = None, country = None\<rparr>\<rparr>)))
      (initial_bar, initial_home)))
     = geoError (fst (getCurrentLocation (fetchWeatherData Rejected) True (Position 0 0)
      Rejected (initial_bar, initial_home)))"
  by (simp add: getCurrentLocation_def locate_try_def locate_catch_def Let_def truthy_def
        js_or_def msg_error_determining_def msg_could_not_determine_def lit_def)

section \<open>The debounce\<close>

lemma fetchSuggestions_short:
  "length query < 3 \<Longrightarrow> fetchSuggestions net query st = st\<lparr>suggestions := []\<rparr>"
  by (simp add: fetchSuggestions_def)

lemma fetchSuggestions_fetches:
  "fetches (fetchSuggestions net query st) =
     (if length query < 3 then fetches st
      else case encodeURIComponent query of
             Inl e \<Rightarrow> fetches st
           | Inr encodedQuery \<Rightarrow> fetches st @ [NominatimSearch encodedQuery])"
  by (simp add: fetchSuggestions_def Let_def split: sum.split fetch_result.split option.split)

lemma handleInputChange_quiet:
  assumes "timers w = []" and "next_handle w \<noteq> 0"
  shows "armed t v (handleInputChange t v w)"
    and "calls (handleInputChange t v w) = calls w"
    and "fetches (bar (handleInputChange t v w)) = fetches (bar w)"
  using assms
  by (auto simp: handleInputChange_def armed_def setTimeout_def clearTimeout_def Let_def
        split: option.splits)

lemma handleInputChange_armed:
  assumes "armed t0 v0 w"
  shows "armed t v (handleInputChange t v w)"
    and "calls (handleInputChange t v w) = calls w"
    and "fetches (bar (handleInputChange t v w)) = fetches (bar w)"
  using assms
  by (auto simp: handleInputChange_def armed_def setTimeout_def clearTimeout_def Let_def
        split: option.splits)

lemma advance_quiet: "timers w = [] \<Longrightarrow> advance net t w = w"
  by (simp add: advance_def)

lemma advance_early: "armed t0 v0 w \<Longrightarrow> t < t0 + 300 \<Longrightarrow> advance net t w = w"
  by (auto simp: advance_def armed_def split: option.splits)

lemma advance_due:
  assumes "armed t0 v0 w" and "t0 + 300 \<le> t"
  shows "calls (advance net t w) = calls w @ [(t0 + 300, v0)]"
    and "timers (advance net t w) = []"
    and "fetches (bar (advance net t w)) = fetches (fetchSuggestions (net v0) v0 (bar w))"
    and "bar (advance net t w) = fetchSuggestions (net v0) v0 (bar w)"
  using assms
  by (auto simp: advance_def armed_def fire_def split: option.splits)

lemma typing_armed:
  "armed t v w \<Longrightarrow> burst ((t, v) # ks) \<Longrightarrow>
     armed (fst (last ((t, v) # ks))) (snd (last ((t, v) # ks))) (typing net ks w)
     \<and> calls (typing net ks w) = calls w
     \<and> fetches (bar (typing net ks w)) = fetches (bar w)"
proof (induction ks arbitrary: t v w)
  case Nil
  then show ?case by simp
next
  case (Cons k ks)
  obtain t' v' where k: "k = (t', v')" by (cases k)
  from Cons.prems(2) k have lt: "t' < t + 300" and b: "burst ((t', v') # ks)" by simp_all
  have adv: "advance net t' w = w" by (rule advance_early [OF Cons.prems(1) lt])
  note step = handleInputChange_armed [OF Cons.prems(1), of t' v']
  from Cons.IH [OF step(1) b] step(2,3) show ?case
    by (simp add: k adv)
qed

lemma typing_quiet:
  assumes "ks \<noteq> []" and "burst ks" and "timers w = []" and "next_handle w \<noteq> 0"
  shows "armed (fst (last ks)) (snd (last ks)) (typing net ks w)
     \<and> calls (typing net ks w) = calls w
     \<and> fetches (bar (typing net ks w)) = fetches (bar w)"
proof -
  from assms(1) obtain t v ks' where ks: "ks = (t, v) # ks'" by (cases ks) auto
  note step = handleInputChange_quiet [OF assms(3,4), of t v]
  from assms(2) ks have "burst ((t, v) # ks')" by simp
  from typing_armed [OF step(1) this, of net] step(2,3) show ?thesis
    by (simp add: ks advance_quiet [OF assms(3)])
qed

lemma fetchSuggestions_fetches_length:
  "length (fetches (fetchSuggestions net query st)) \<le> Suc (length (fetches st))"
  by (simp add: fetchSuggestions_fetches split: sum.split)

lemma armed_timers:
  "armed t v w \<Longrightarrow> map due (timers w) = [t + 300] \<and> map arg (timers w) = [v]"
  by (auto simp: armed_def split: option.splits)

text \<open>
  C1. For a burst of key strokes, each less than 300 ms after the one before, typed into
  a search bar with no timer pending: after the burst exactly one lookup is scheduled, due
  300 ms after the last key stroke and for its value (each key stroke cleared the timer of
  the one before); during the burst and before that time no lookup runs and no request
  leaves; at that time the search bar is what \<open>fetchSuggestions\<close> makes of it on the
  last value, called once, so that the requests sent are those of before the burst and,
  when the last value has 3 code units or more and can be encoded, the one search request
  for it: at most one. Time is the model's millisecond clock, and a timer fires at the
  time it is due.
\<close>

theorem burst_one_lookup:
  assumes "ks \<noteq> []" and "burst ks" and "timers w = []" and "next_handle w \<noteq> 0"
  shows "map due (timers (typing net ks w)) = [fst (last ks) + 300]
       \<and> map arg (timers (typing net ks w)) = [snd (last ks)]
       \<and> calls (typing net ks w) = calls w
       \<and> fetches (bar (typing net ks w)) = fetches (bar w)
       \<and> (T < fst (last ks) + 300 \<longrightarrow>
            calls (advance net T (typing net ks w)) = calls w
            \<and> fetches (bar (advance net T (typing net ks w))) = fetches (bar w))
       \<and> (fst (last ks) + 300 \<le> T \<longrightarrow>
            calls (advance net T (typing net ks w)) = calls w @ [(fst (last ks) + 300, snd (last ks))]
            \<and> timers (advance net T (typing net ks w)) = []
            \<and> bar (advance net T (typing net ks w))
                = fetchSuggestions (net (snd (last ks))) (snd (last ks)) (bar (typing net ks w))
            \<and> fetches (bar (advance net T (typing net ks w)))
                = fetches (fetchSuggestions (net (snd (last ks))) (snd (last ks))
                             (bar (typing net ks w)))
            \<and> fetches (bar (advance net T (typing net ks w)))
                = (if length (snd (last ks)) < 3 then fetches (bar w)
                   else case encodeURIComponent (snd (last ks)) of
                          Inl e \<Rightarrow> fetches (bar w)
                        | Inr encodedQuery \<Rightarrow> fetches (bar w) @ [NominatimSearch encodedQuery])
            \<and> length (fetches (bar (advance net T (typing net ks w))))
                \<le> Suc (length (fetches (bar w))))"
proof -
  note A = typing_quiet [OF assms, of net]
  then have a: "armed (fst (last ks)) (snd (last ks)) (typing net ks w)"
    and c: "calls (typing net ks w) = calls w"
    and f: "fetches (bar (typing net ks w)) = fetches (bar w)" by simp_all
  have 1: "T < fst (last ks) + 300 \<longrightarrow>
            calls (advance net T (typing net ks w)) = calls w
            \<and> fetches (bar (advance net T (typing net ks w))) = fetches (bar w)"
    using advance_early [OF a, of T net] c f by simp
  have 2: "fst (last ks) + 300 \<le> T \<longrightarrow>
            calls (advance net T (typing net ks w)) = calls w @ [(fst (last ks) + 300, snd (last ks))]
            \<and> timers (advance net T (typing net ks w)) = []
            \<and> bar (advance net T (typing net ks w))
                = fetchSuggestions (net (snd (last ks))) (snd (last ks)) (bar (typing net ks w))
            \<and> fetches (bar (advance net T (typing net ks w)))
                = fetches (fetchSuggestions (net (snd (last ks))) (snd (last ks))
                             (bar (typing net ks w)))
            \<and> fetches (bar (advance net T (typing net ks w)))
                = (if length (snd (last ks)) < 3 then fetches (bar w)
                   else case encodeURIComponent (snd (last ks)) of
                          Inl e \<Rightarrow> fetches (bar w)
                        | Inr encodedQuery \<Rightarrow> fetches (bar w) @ [NominatimSearch encodedQuery])
            \<and> length (fetches (bar (advance net T (typing net ks w))))
                \<le> Suc (length (fetches (bar w)))"
  proof
    assume d: "fst (last ks) + 300 \<le> T"
    note D = advance_due [OF a d, of net]
    have len: "length (fetches (fetchSuggestions (net (snd (last ks))) (snd (last ks))
                 (bar (typing net ks w)))) \<le> Suc (length (fetches (bar w)))"
      using fetchSuggestions_fetches_length
              [of "net (snd (last ks))" "snd (last ks)" "bar (typing net ks w)"] f
      by simp
    have ex: "fetches (fetchSuggestions (net (snd (last ks))) (snd (last ks))
                 (bar (typing net ks w)))
                = (if length (snd (last ks)) < 3 then fetches (bar w)
                   else case encodeURIComponent (snd (last ks)) of
                          Inl e \<Rightarrow> fetches (bar w)
                        | Inr encodedQuery \<Rightarrow> fetches (bar w) @ [NominatimSearch encodedQuery])"
      by (simp only: fetchSuggestions_fetches f)
    have e1: "calls (advance net T (typing net ks w))
                = calls w @ [(fst (last ks) + 300, snd (last ks))]"
      using D(1) c by simp
    have e5: "fetches (bar (advance net T (typing net ks w)))
                = (if length (snd (last ks)) < 3 then fetches (bar w)
                   else case encodeURIComponent (snd (last ks)) of
                          Inl e \<Rightarrow> fetches (bar w)
                        | Inr encodedQuery \<Rightarrow> fetches (bar w) @ [NominatimSearch encodedQuery])"
      using D(3) ex by (rule trans)
    have e6: "length (fetches (bar (advance net T (typing net ks w))))
                \<le> Suc (length (fetches (bar w)))"
      using len by (simp only: D(3))
    from e1 D(2) D(4) D(3) e5 e6
    show "calls (advance net T (typing net ks w)) = calls w @ [(fst (last ks) + 300, snd (last ks))]
            \<and> timers (advance net T (typing net ks w)) = []
            \<and> bar (advance net T (typing net ks w))
                = fetchSuggestions (net (snd (last ks))) (snd (last ks)) (bar (typing net ks w))
            \<and> fetches (bar (advance net T (typing net ks w)))
                = fetches (fetchSuggestions (net (snd (last ks))) (snd (last ks))
                             (bar (typing net ks w)))
            \<and> fetches (bar (advance net T (typing net ks w)))
                = (if length (snd (last ks)) < 3 then fetches (bar w)
                   else case encodeURIComponent (snd (last ks)) of
                          Inl e \<Rightarrow> fetches (bar w)
                        | Inr encodedQuery \<Rightarrow> fetches (bar w) @ [NominatimSearch encodedQuery])
            \<and> length (fetches (bar (advance net T (typing net ks w))))
                \<le> Suc (length (fetches (bar w)))"
      by (intro conjI)
  qed
  from armed_timers [OF a]
  have t1: "map due (timers (typing net ks w)) = [fst (last ks) + 300]"
    and t2: "map arg (timers (typing net ks w)) = [snd (last ks)]"
    by simp_all
  from t1 t2 c f 1 2 show ?thesis by (intro conjI)
qed

theorem burst_one_lookup_witness:
  "calls (advance (\<lambda>q. Rejected) 550
      (typing (\<lambda>q. Rejected) [(0, lit ''C''), (100, lit ''Cu''), (250, lit ''Cur'')]
         initial_world)) = [(550, lit ''Cur'')]
   \<and> fetches (bar (advance (\<lambda>q. Rejected) 550
      (typing (\<lambda>q. Rejected) [(0, lit ''C''), (100, lit ''Cu''), (250, lit ''Cur'')]
         initial_world))) = [NominatimSearch (lit ''Cur'')]
   \<and> calls (advance (\<lambda>q. Rejected) 549
      (typing (\<lambda>q. Rejected) [(0, lit ''C''), (100, lit ''Cu''), (250, lit ''Cur'')]
         initial_world)) = []
   \<and> fetches (bar (advance (\<lambda>q. Rejected) 549
      (typing (\<lambda>q. Rejected) [(0, lit ''C''), (100, lit ''Cu''), (250, lit ''Cur'')]
         initial_world))) = []"
proof -
  have ne: "[(0, lit ''C''), (100, lit ''Cu''), (250::nat, lit ''Cur'')] \<noteq> []" by simp
  have b: "burst [(0, lit ''C''), (100, lit ''Cu''), (250, lit ''Cur'')]" by simp
  have q: "timers initial_world = []" by (simp add: initial_world_def)
  have h: "next_handle initial_world \<noteq> 0" by (simp add: initial_world_def)
  have e: "encodeURIComponent (lit ''Cur'') = Inr (lit ''Cur'')" by code_simp
  have l: "length (lit ''Cur'') = 3" by (simp add: lit_def)
  have c0: "calls initial_world = []" by (simp add: initial_world_def)
  have f0: "fetches (bar initial_world) = []" by (simp add: initial_world_def initial_bar_def)
  have late: "fst (last [(0, lit ''C''), (100, lit ''Cu''), (250::nat, lit ''Cur'')]) + 300 \<le> 550"
    by simp
  have early: "549 < fst (last [(0, lit ''C''), (100, lit ''Cu''), (250::nat, lit ''Cur'')]) + 300"
    by simp
  note at_550 = burst_one_lookup [OF ne b q h, of "\<lambda>q. Rejected" 550]
  note at_549 = burst_one_lookup [OF ne b q h, of "\<lambda>q. Rejected" 549]
  from at_550 late
  have 1: "calls (advance (\<lambda>q. Rejected) 550
      (typing (\<lambda>q. Rejected) [(0, lit ''C''), (100, lit ''Cu''), (250, lit ''Cur'')]
         initial_world))
      = calls initial_world
        @ [(fst (last [(0, lit ''C''), (100, lit ''Cu''), (250::nat, lit ''Cur'')]) + 300,
            snd (last [(0, lit ''C''), (100, lit ''Cu''), (250::nat, lit ''Cur'')]))]"
    by blast
  from at_550 late
  have 2: "fetches (bar (advance (\<lambda>q. Rejected) 550
      (typing (\<lambda>q. Rejected) [(0, lit ''C''), (100, lit ''Cu''), (250, lit ''Cur'')]
         initial_world)))
      = (if length (snd (last [(0, lit ''C''), (100, lit ''Cu''), (250::nat, lit ''Cur'')])) < 3
         then fetches (bar initial_world)
         else case encodeURIComponent
                     (snd (last [(0, lit ''C''), (100, lit ''Cu''), (250::nat, lit ''Cur'')])) of
                Inl e \<Rightarrow> fetches (bar initial_world)
              | Inr encodedQuery \<Rightarrow> fetches (bar initial_world) @ [NominatimSearch encodedQuery])"
    by blast
  from at_549 early
  have 3: "calls (advance (\<lambda>q. Rejected) 549
      (typing (\<lambda>q. Rejected) [(0, lit ''C''), (100, lit ''Cu''), (250, lit ''Cur'')]
         initial_world)) = calls initial_world"
    by blast
  from at_549 early
  have 4: "fetches (bar (advance (\<lambda>q. Rejected) 549
      (typing (\<lambda>q. Rejected) [(0, lit ''C''), (100, lit ''Cu''), (250, lit ''Cur'')]
         initial_world))) = fetches (bar initial_world)"
    by blast
  have r1: "calls (advance (\<lambda>q. Rejected) 550
      (typing (\<lambda>q. Rejected) [(0, lit ''C''), (100, lit ''Cu''), (250, lit ''Cur'')]
         initial_world)) = [(550, lit ''Cur'')]"
    by (simp only: 1 c0) simp
  have r2: "fetches (bar (advance (\<lambda>q. Rejected) 550
      (typing (\<lambda>q. Rejected) [(0, lit ''C''), (100, lit ''Cu''), (250, lit ''Cur'')]
         initial_world))) = [NominatimSearch (lit ''Cur'')]"
    by (simp only: 2 f0) (simp add: e l)
  from r1 r2 3 [unfolded c0] 4 [unfolded f0] show ?thesis by (intro conjI)
qed

text \<open>
  C3, as the code has it. The test is on the length of the query as typed, not trimmed:
  for every query of fewer than 3 code units the lookup issues no request and sets the
  suggestion list to empty.
\<close>

theorem short_query_no_request:
  "length query < 3 \<Longrightarrow>
     fetches (fetchSuggestions net query st) = fetches st
     \<and> suggestions (fetchSuggestions net query st) = []"
  by (simp add: fetchSuggestions_short)

theorem short_query_no_request_witness:
  "fetches (fetchSuggestions Rejected (lit ''Cu'') initial_bar) = fetches initial_bar
   \<and> suggestions (fetchSuggestions Rejected (lit ''Cu'') initial_bar) = []"
proof -
  have "length (lit ''Cu'') < 3" by (simp add: lit_def)
  from short_query_no_request [OF this] show ?thesis .
qed

text \<open>
  C3 as stated fails: the query "a" followed by two spaces has trimmed length 1, and
  the lookup sends it to the geocoding service.
\<close>

theorem padded_query_counterexample:
  "length (trim (lit ''a  '')) < 3
   \<and> fetches (fetchSuggestions Rejected (lit ''a  '') initial_bar) = [NominatimSearch (lit ''a%20%20'')]"
  by (simp add: trim_def white_space_def lit_def fetchSuggestions_def encodeURIComponent_def
     is_high_surrogate_def is_low_surrogate_def uri_unescaped_def utf8_def percent_def hex_digit_def
     initial_bar_def)

section \<open>Claims about the page\<close>

lemma weather_try_failure:
  assumes "encodeURIComponent loc = Inl e0 \<or> net = Rejected
           \<or> (\<exists>r. net = Resolved r \<and> (\<not> ok r \<or> json r = None
                  \<or> (\<exists>data. json r = Some data \<and> snapshot data = None)))"
  shows "\<exists>e. fst (weather_try net loc h) = Some e"
    and "weather (snd (weather_try net loc h)) = weather h"
    and "loading (snd (weather_try net loc h)) = loading h"
  using assms
  by (auto simp: weather_try_def Let_def split: sum.split fetch_result.split option.split)

lemma weather_try_weather:
  "fst (weather_try net loc h) = Some e \<Longrightarrow> weather (snd (weather_try net loc h)) = weather h"
  by (auto simp: weather_try_def Let_def split: sum.splits fetch_result.splits option.splits if_splits)

lemma fetchWeatherData_raised:
  assumes "fst (weather_try net loc (h\<lparr>loading := True, error := None\<rparr>)) = Some e"
  shows "error (fetchWeatherData net loc h) = Some msg_weather_failed"
    and "loading (fetchWeatherData net loc h) = False"
    and "weather (fetchWeatherData net loc h) = weather h"
  using assms weather_try_weather [OF assms]
  by (simp_all add: fetchWeatherData_def Let_def)

lemma fetchWeatherData_loading: "loading (fetchWeatherData net loc h) = False"
  by (simp add: fetchWeatherData_def Let_def)

lemma snapshot_Some:
  assumes "currentConditions data = Some cc" and "days data = Some (d # ds)"
    and "hours d = Some hs"
  shows "snapshot data =
     Some \<lparr>w_location = resolvedAddress data,
           temperature = Math_round (cc_temp cc),
           windSpeed = Math_round (cc_windspeed cc),
           precipitation = Math_round (or_zero (cc_precipprob cc)),
           humidity = Math_round (or_zero (cc_humidity cc)),
           w_conditions = cc_conditions cc,
           hourlyForecast =
             map (\<lambda>hour. \<lparr>datetime = hr_datetime hour, temp = Math_round (hr_temp hour),
                           conditions = hr_conditions hour\<rparr>) hs\<rparr>"
  using assms by (simp add: snapshot_def)

lemma fetchWeatherData_success:
  assumes "encodeURIComponent loc = Inr enc" and "ok r" and "json r = Some data"
    and "snapshot data = Some w"
  shows "fetchWeatherData (Resolved r) loc h =
           h\<lparr>loading := False, error := None, requests := requests h @ [WeatherTimeline enc],
             weather := Some w\<rparr>"
  using assms by (simp add: fetchWeatherData_def weather_try_def Let_def)

lemma Math_round_or_zero_Some:
  "Math_round (or_zero (Some x)) = Num (of_int \<lfloor>x + 1 / 2\<rfloor>)"
  by (simp add: Math_round_def or_zero_def)

lemma Math_round_or_zero_None: "Math_round (or_zero None) = Num 0"
  by (simp add: Math_round_def or_zero_def)

lemma Math_round_Some: "Math_round (Some x) = Num (of_int \<lfloor>x + 1 / 2\<rfloor>)"
  by (simp add: Math_round_def)

lemma Math_round_None: "Math_round None = NaN"
  by (simp add: Math_round_def)

lemma enc_curitiba_plain: "encodeURIComponent (lit ''Curitiba'') = Inr (lit ''Curitiba'')"
  by code_simp

text \<open>
  C9. When a weather fetch fails, by a rejected request, a status that is not OK, a body
  that does not parse, a response without the fields read, or a location that cannot be
  encoded, the error message is \<open>msg_weather_failed\<close>, \<open>loading\<close> is false, and
  the stored snapshot is the one from before the fetch.
\<close>

theorem weather_failure_keeps_snapshot:
  assumes "encodeURIComponent loc = Inl e0 \<or> net = Rejected
           \<or> (\<exists>r. net = Resolved r \<and> (\<not> ok r \<or> json r = None
                  \<or> (\<exists>data. json r = Some data \<and> snapshot data = None)))"
  shows "error (fetchWeatherData net loc h) = Some msg_weather_failed
       \<and> loading (fetchWeatherData net loc h) = False
       \<and> weather (fetchWeatherData net loc h) = weather h"
proof -
  from weather_try_failure(1) [OF assms] obtain e
    where "fst (weather_try net loc (h\<lparr>loading := True, error := None\<rparr>)) = Some e"
    by blast
  from fetchWeatherData_raised [OF this] show ?thesis by simp
qed

theorem weather_failure_keeps_snapshot_witness:
  "error (fetchWeatherData (Resolved (Response False None)) (lit ''Curitiba'')
     (initial_home\<lparr>weather := Some
        \<lparr>w_location = lit ''Curitiba'', temperature = Num 21, windSpeed = Num 4,
         precipitation = Num 2, humidity = Num 80, w_conditions = lit ''Limpo'',
         hourlyForecast = []\<rparr>\<rparr>)) = Some msg_weather_failed
   \<and> weather (fetchWeatherData (Resolved (Response False None)) (lit ''Curitiba'')
     (initial_home\<lparr>weather := Some
        \<lparr>w_location = lit ''Curitiba'', temperature = Num 21, windSpeed = Num 4,
         precipitation = Num 2, humidity = Num 80, w_conditions = lit ''Limpo'',
         hourlyForecast = []\<rparr>\<rparr>)) = Some
        \<lparr>w_location = lit ''Curitiba'', temperature = Num 21, windSpeed = Num 4,
         precipitation = Num 2, humidity = Num 80, w_conditions = lit ''Limpo'',
         hourlyForecast = []\<rparr>"
  using weather_failure_keeps_snapshot
    [where net = "Resolved (Response False None)" and loc = "lit ''Curitiba''"
       and h = "initial_home\<lparr>weather := Some
        \<lparr>w_location = lit ''Curitiba'', temperature = Num 21, windSpeed = Num 4,
         precipitation = Num 2, humidity = Num 80, w_conditions = lit ''Limpo'',
         hourlyForecast = []\<rparr>\<rparr>"]
  by (simp add: initial_home_def)

text \<open>
  C5, as the code has it. After a successful weather fetch the temperature, humidity,
  wind speed and precipitation of the new snapshot are the raw fields of the response
  rounded to the nearest integer, and the hourly forecast has one entry for each hour of
  the response's first day, in the order of the response, with the hour's temperature
  rounded. The code applies no cap: the forecast is as long as the response's list.
\<close>

theorem weather_snapshot_rounded:
  assumes "encodeURIComponent loc = Inr enc" and "ok r" and "json r = Some data"
    and "currentConditions data = Some cc" and "days data = Some (d # ds)"
    and "hours d = Some hs"
  shows "(cc_temp cc = Some t \<longrightarrow>
            map_option temperature (weather (fetchWeatherData (Resolved r) loc h))
              = Some (Num (of_int \<lfloor>t + 1 / 2\<rfloor>)))
       \<and> (cc_humidity cc = Some u \<longrightarrow>
            map_option humidity (weather (fetchWeatherData (Resolved r) loc h))
              = Some (Num (of_int \<lfloor>u + 1 / 2\<rfloor>)))
       \<and> (cc_windspeed cc = Some v \<longrightarrow>
            map_option windSpeed (weather (fetchWeatherData (Resolved r) loc h))
              = Some (Num (of_int \<lfloor>v + 1 / 2\<rfloor>)))
       \<and> (cc_precipprob cc = Some p \<longrightarrow>
            map_option precipitation (weather (fetchWeatherData (Resolved r) loc h))
              = Some (Num (of_int \<lfloor>p + 1 / 2\<rfloor>)))
       \<and> map_option hourlyForecast (weather (fetchWeatherData (Resolved r) loc h))
            = Some (map (\<lambda>hour. \<lparr>datetime = hr_datetime hour,
                                   temp = Math_round (hr_temp hour),
                                   conditions = hr_conditions hour\<rparr>) hs)
       \<and> map_option (length \<circ> hourlyForecast) (weather (fetchWeatherData (Resolved r) loc h))
            = Some (length hs)"
  by (simp add: fetchWeatherData_success [OF assms(1,2,3) snapshot_Some [OF assms(4,5,6)]]
        Math_round_or_zero_Some Math_round_Some)

theorem weather_snapshot_rounded_witness:
  "map_option temperature (weather (fetchWeatherData
      (Resolved (Response True (Some
         \<lparr>resolvedAddress = lit ''Curitiba'',
          currentConditions = Some \<lparr>cc_temp = Some (41 / 2), cc_windspeed = Some (7 / 2),
             cc_precipprob = Some (12 / 5), cc_humidity = Some (-1 / 2), cc_conditions = lit ''Limpo''\<rparr>,
          days = Some [\<lparr>hours = Some [
            \<lparr>hr_datetime = lit ''00:00:00'', hr_temp = Some (37 / 2), hr_conditions = lit ''Limpo''\<rparr>,
            \<lparr>hr_datetime = lit ''01:00:00'', hr_temp = Some (181 / 10), hr_conditions = lit ''Chuva''\<rparr>]\<rparr>]\<rparr>)))
      (lit ''Curitiba'') initial_home)) = Some (Num 21)
   \<and> map_option windSpeed (weather (fetchWeatherData
      (Resolved (Response True (Some
         \<lparr>resolvedAddress = lit ''Curitiba'',
          currentConditions = Some \<lparr>cc_temp = Some (41 / 2), cc_windspeed = Some (7 / 2),
             cc_precipprob = Some (12 / 5), cc_humidity = Some (-1 / 2), cc_conditions = lit ''Limpo''\<rparr>,
          days = Some [\<lparr>hours = Some [
            \<lparr>hr_datetime = lit ''00:00:00'', hr_temp = Some (37 / 2), hr_conditions = lit ''Limpo''\<rparr>,
            \<lparr>hr_datetime = lit ''01:00:00'', hr_temp = Some (181 / 10), hr_conditions = lit ''Chuva''\<rparr>]\<rparr>]\<rparr>)))
      (lit ''Curitiba'') initial_home)) = Some (Num 4)
   \<and> map_option precipitation (weather (fetchWeatherData
      (Resolved (Response True (Some
         \<lparr>resolvedAddress = lit ''Curitiba'',
          currentConditions = Some \<lparr>cc_temp = Some (41 / 2), cc_windspeed = Some (7 / 2),
             cc_precipprob = Some (12 / 5), cc_humidity = Some (-1 / 2), cc_conditions = lit ''Limpo''\<rparr>,
          days = Some [\<lparr>hours = Some [
            \<lparr>hr_datetime = lit ''00:00:00'', hr_temp = Some (37 / 2), hr_conditions = lit ''Limpo''\<rparr>,
            \<lparr>hr_datetime = lit ''01:00:00'', hr_temp = Some (181 / 10), hr_conditions = lit ''Chuva''\<rparr>]\<rparr>]\<rparr>)))
      (lit ''Curitiba'') initial_home)) = Some (Num 2)
   \<and> map_option humidity (weather (fetchWeatherData
      (Resolved (Response True (Some
         \<lparr>resolvedAddress = lit ''Curitiba'',
          currentConditions = Some \<lparr>cc_temp = Some (41 / 2), cc_windspeed = Some (7 / 2),
             cc_precipprob = Some (12 / 5), cc_humidity = Some (-1 / 2), cc_conditions = lit ''Limpo''\<rparr>,
          days = Some [\<lparr>hours = Some [
            \<lparr>hr_datetime = lit ''00:00:00'', hr_temp = Some (37 / 2), hr_conditions = lit ''Limpo''\<rparr>,
            \<lparr>hr_datetime = lit ''01:00:00'', hr_temp = Some (181 / 10), hr_conditions = lit ''Chuva''\<rparr>]\<rparr>]\<rparr>)))
      (lit ''Curitiba'') initial_home)) = Some (Num 0)
   \<and> map_option hourlyForecast (weather (fetchWeatherData
      (Resolved (Response True (Some
         \<lparr>resolvedAddress = lit ''Curitiba'',
          currentConditions = Some \<lparr>cc_temp = Some (41 / 2), cc_windspeed = Some (7 / 2),
             cc_precipprob = Some (12 / 5), cc_humidity = Some (-1 / 2), cc_conditions = lit ''Limpo''\<rparr>,
          days = Some [\<lparr>hours = Some [
            \<lparr>hr_datetime = lit ''00:00:00'', hr_temp = Some (37 / 2), hr_conditions = lit ''Limpo''\<rparr>,
            \<lparr>hr_datetime = lit ''01:00:00'', hr_temp = Some (181 / 10), hr_conditions = lit ''Chuva''\<rparr>]\<rparr>]\<rparr>)))
      (lit ''Curitiba'') initial_home))
      = Some [\<lparr>datetime = lit ''00:00:00'', temp = Num 19, conditions = lit ''Limpo''\<rparr>,
              \<lparr>datetime = lit ''01:00:00'', temp = Num 18, conditions = lit ''Chuva''\<rparr>]"
  using weather_snapshot_rounded
    [of "lit ''Curitiba''" "lit ''Curitiba''"
        "Response True (Some
         \<lparr>resolvedAddress = lit ''Curitiba'',
          currentConditions = Some \<lparr>cc_temp = Some (41 / 2), cc_windspeed = Some (7 / 2),
             cc_precipprob = Some (12 / 5), cc_humidity = Some (-1 / 2), cc_conditions = lit ''Limpo''\<rparr>,
          days = Some [\<lparr>hours = Some [
            \<lparr>hr_datetime = lit ''00:00:00'', hr_temp = Some (37 / 2), hr_conditions = lit ''Limpo''\<rparr>,
            \<lparr>hr_datetime = lit ''01:00:00'', hr_temp = Some (181 / 10), hr_conditions = lit ''Chuva''\<rparr>]\<rparr>]\<rparr>)"
        "\<lparr>resolvedAddress = lit ''Curitiba'',
          currentConditions = Some \<lparr>cc_temp = Some (41 / 2), cc_windspeed = Some (7 / 2),
             cc_precipprob = Some (12 / 5), cc_humidity = Some (-1 / 2), cc_conditions = lit ''Limpo''\<rparr>,
          days = Some [\<lparr>hours = Some [
            \<lparr>hr_datetime = lit ''00:00:00'', hr_temp = Some (37 / 2), hr_conditions = lit ''Limpo''\<rparr>,
            \<lparr>hr_datetime = lit ''01:00:00'', hr_temp = Some (181 / 10), hr_conditions = lit ''Chuva''\<rparr>]\<rparr>]\<rparr>"
        "\<lparr>cc_temp = Some (41 / 2), cc_windspeed = Some (7 / 2),
             cc_precipprob = Some (12 / 5), cc_humidity = Some (-1 / 2), cc_conditions = lit ''Limpo''\<rparr>"
        "\<lparr>hours = Some [
            \<lparr>hr_datetime = lit ''00:00:00'', hr_temp = Some (37 / 2), hr_conditions = lit ''Limpo''\<rparr>,
            \<lparr>hr_datetime = lit ''01:00:00'', hr_temp = Some (181 / 10), hr_conditions = lit ''Chuva''\<rparr>]\<rparr>"
        "[]"
        "[\<lparr>hr_datetime = lit ''00:00:00'', hr_temp = Some (37 / 2), hr_conditions = lit ''Limpo''\<rparr>,
          \<lparr>hr_datetime = lit ''01:00:00'', hr_temp = Some (181 / 10), hr_conditions = lit ''Chuva''\<rparr>]"
        "41 / 2" initial_home "-1 / 2" "7 / 2" "12 / 5"]
  by (simp add: enc_curitiba_plain Math_round_def)

text \<open>
  C5 as stated fails: a response whose first day lists 25 hours gives a forecast of 25
  entries.
\<close>

theorem forecast_not_capped_counterexample:
  "map_option (length \<circ> hourlyForecast) (weather (fetchWeatherData
      (Resolved (Response True (Some
         \<lparr>resolvedAddress = lit ''Curitiba'',
          currentConditions = Some \<lparr>cc_temp = Some 20, cc_windspeed = Some 5,
             cc_precipprob = Some 0, cc_humidity = Some 80, cc_conditions = lit ''Limpo''\<rparr>,
          days = Some [\<lparr>hours = Some (replicate 25
             \<lparr>hr_datetime = lit ''00:00:00'', hr_temp = Some 20, hr_conditions = lit ''Limpo''\<rparr>)\<rparr>]\<rparr>)))
      (lit ''Curitiba'') initial_home)) = Some 25"
  by (simp add: fetchWeatherData_def weather_try_def enc_curitiba_plain snapshot_def Let_def)

text \<open>
  C10. After a successful weather fetch whose response omits the precipitation
  probability or the humidity, the snapshot holds 0 for that field. Temperature and wind
  speed have no such default: they are \<open>Math.round\<close> of the raw field, which is
  \<open>NaN\<close> when the field is omitted.
\<close>

theorem weather_snapshot_defaults:
  assumes "encodeURIComponent loc = Inr enc" and "ok r" and "json r = Some data"
    and "currentConditions data = Some cc" and "days data = Some (d # ds)"
    and "hours d = Some hs"
  shows "(cc_precipprob cc = None \<longrightarrow>
            map_option precipitation (weather (fetchWeatherData (Resolved r) loc h))
              = Some (Num 0))
       \<and> (cc_humidity cc = None \<longrightarrow>
            map_option humidity (weather (fetchWeatherData (Resolved r) loc h)) = Some (Num 0))
       \<and> (cc_temp cc = None \<longrightarrow>
            map_option temperature (weather (fetchWeatherData (Resolved r) loc h)) = Some NaN)
       \<and> (cc_windspeed cc = None \<longrightarrow>
            map_option windSpeed (weather (fetchWeatherData (Resolved r) loc h)) = Some NaN)
       \<and> map_option temperature (weather (fetchWeatherData (Resolved r) loc h))
            = Some (Math_round (cc_temp cc))
       \<and> map_option windSpeed (weather (fetchWeatherData (Resolved r) loc h))
            = Some (Math_round (cc_windspeed cc))"
  by (simp add: fetchWeatherData_success [OF assms(1,2,3) snapshot_Some [OF assms(4,5,6)]]
        Math_round_or_zero_None Math_round_None)

theorem weather_snapshot_defaults_witness:
  "map_option precipitation (weather (fetchWeatherData
      (Resolved (Response True (Some
         \<lparr>resolvedAddress = lit ''Curitiba'',
          currentConditions = Some \<lparr>cc_temp = None, cc_windspeed = None, cc_precipprob = None, cc_humidity = None,
             cc_conditions = lit ''Limpo''\<rparr>,
          days = Some [\<lparr>hours = Some []\<rparr>]\<rparr>)))
      (lit ''Curitiba'') initial_home)) = Some (Num 0)
   \<and> map_option humidity (weather (fetchWeatherData
      (Resolved (Response True (Some
         \<lparr>resolvedAddress = lit ''Curitiba'',
          currentConditions = Some \<lparr>cc_temp = None, cc_windspeed = None, cc_precipprob = None, cc_humidity = None,
             cc_conditions = lit ''Limpo''\<rparr>,
          days = Some [\<lparr>hours = Some []\<rparr>]\<rparr>)))
      (lit ''Curitiba'') initial_home)) = Some (Num 0)
   \<and> map_option temperature (weather (fetchWeatherData
      (Resolved (Response True (Some
         \<lparr>resolvedAddress = lit ''Curitiba'',
          currentConditions = Some \<lparr>cc_temp = None, cc_windspeed = None, cc_precipprob = None, cc_humidity = None,
             cc_conditions = lit ''Limpo''\<rparr>,
          days = Some [\<lparr>hours = Some []\<rparr>]\<rparr>)))
      (lit ''Curitiba'') initial_home)) = Some NaN
   \<and> map_option windSpeed (weather (fetchWeatherData
      (Resolved (Response True (Some
         \<lparr>resolvedAddress = lit ''Curitiba'',
          currentConditions = Some \<lparr>cc_temp = None, cc_windspeed = None, cc_precipprob = None, cc_humidity = None,
             cc_conditions = lit ''Limpo''\<rparr>,
          days = Some [\<lparr>hours = Some []\<rparr>]\<rparr>)))
      (lit ''Curitiba'') initial_home)) = Some NaN"
  using weather_snapshot_defaults
    [where loc = "lit ''Curitiba''" and enc = "lit ''Curitiba''"
       and r = "Response True (Some
         \<lparr>resolvedAddress = lit ''Curitiba'',
          currentConditions = Some \<lparr>cc_temp = None, cc_windspeed = None, cc_precipprob = None, cc_humidity = None,
             cc_conditions = lit ''Limpo''\<rparr>,
          days = Some [\<lparr>hours = Some []\<rparr>]\<rparr>)"
       and data = "\<lparr>resolvedAddress = lit ''Curitiba'',
          currentConditions = Some \<lparr>cc_temp = None, cc_windspeed = None, cc_precipprob = None, cc_humidity = None,
             cc_conditions = lit ''Limpo''\<rparr>,
          days = Some [\<lparr>hours = Some []\<rparr>]\<rparr>"
       and cc = "\<lparr>cc_temp = None, cc_windspeed = None, cc_precipprob = None, cc_humidity = None,
             cc_conditions = lit ''Limpo''\<rparr>"
       and d = "\<lparr>hours = Some []\<rparr>" and ds = "[]" and hs = "[]" and h = initial_home]
  by (simp add: enc_curitiba_plain)

end
